theory Spec2Isabelle
  imports Complex_Main
begin

section \<open>JavaScript values and HTTP messages\<close>

text \<open>
  The values that \<^verbatim>\<open>express.json()\<close> puts into \<^verbatim>\<open>req.body\<close> and that
  \<^verbatim>\<open>res.json\<close> sends back. A number is a finite double, hence a rational; an absent
  property reads as \<^verbatim>\<open>undefined\<close>.
\<close>

datatype jsval =
    Undefined
  | Null
  | Bool bool
  | Num rat
  | Str string
  | Arr "jsval list"
  | Obj "(string \<times> jsval) list"

text \<open>The operand test of JavaScript's \<^verbatim>\<open>!x\<close>: \<open>falsy x\<close> holds exactly when \<^verbatim>\<open>!x\<close> is true.\<close>

fun falsy :: "jsval \<Rightarrow> bool" where
  "falsy Undefined = True"
| "falsy Null = True"
| "falsy (Bool b) = (b = False)"
| "falsy (Num n) = (n = 0)"
| "falsy (Str s) = (s = [])"
| "falsy (Arr xs) = False"
| "falsy (Obj kvs) = False"

record response =
  status :: nat
  body :: jsval

text \<open>\<^verbatim>\<open>res.status(code).json({k: v, ...})\<close>\<close>

definition json :: "nat \<Rightarrow> (string \<times> jsval) list \<Rightarrow> response" where
  "json code kvs = \<lparr>status = code, body = Obj kvs\<rparr>"

text \<open>
  The part of an Express request the handlers read: the \<^verbatim>\<open>Authorization\<close> header
  (\<^verbatim>\<open>req.header\<close> gives \<^verbatim>\<open>undefined\<close> when it is absent), the path parameters
  (always strings), the parsed body (an object, read field by field), and \<^verbatim>\<open>req.user\<close>,
  which the middleware sets.
\<close>

record request =
  authorization :: "string option"
  params :: "string \<Rightarrow> string"
  reqbody :: "string \<Rightarrow> jsval"
  user :: jsval

section \<open>The store\<close>

text \<open>
  Modelled from the spec: the declarations of the four tables are not part of the source.
  The columns are the ones the SQL statements of the handlers name and the data model of
  the specification lists: a User has a generated id, a name, an email, a password hash
  and a role; a Course a generated id, a title, an optional description and an instructor;
  an Enrollment a course and a user; a Review a course, a user, a rating and a comment.
  A cell is NULL (\<open>None\<close>) or holds a datum, the generated ids come from the two counters
  of the store, and whatever else the schema enforces (types, keys, uniqueness) is left
  to the \<open>accepts\<close> parameter of the environment below.
\<close>

datatype datum = DInt int | DText string

type_synonym cell = "datum option"

record user_row =
  u_id :: cell
  u_name :: cell
  u_email :: cell
  u_password :: cell
  u_role :: cell

record course_row =
  c_id :: cell
  c_title :: cell
  c_description :: cell
  c_instructor_id :: cell

record enrollment_row =
  e_course_id :: cell
  e_user_id :: cell

record review_row =
  r_course_id :: cell
  r_user_id :: cell
  r_rating :: cell
  r_comment :: cell

record store =
  users :: "user_row list"
  courses :: "course_row list"
  enrollments :: "enrollment_row list"
  reviews :: "review_row list"
  next_user_id :: int
  next_course_id :: int

datatype column =
    Users_name | Users_email | Users_password | Users_role
  | Courses_id | Courses_title | Courses_description | Courses_instructor_id
  | Enrollments_course_id | Enrollments_user_id
  | Reviews_course_id | Reviews_user_id | Reviews_rating | Reviews_comment

text \<open>The statements the handlers send, in the order of the source.\<close>

datatype sql =
    SelectUserByEmail
  | InsertUser
  | InsertCourse
  | SelectCourseById
  | UpdateCourse
  | DeleteCourse
  | SelectCoursesByInstructor
  | SelectEnrollment
  | InsertEnrollment
  | DeleteEnrollment
  | SelectEnrolledCourses
  | InsertReview
  | SelectReview
  | UpdateReview
  | SelectCourseReviews

section \<open>The collaborators\<close>

text \<open>
  What the program takes from outside its own file: the token library with the process-wide
  secret and the clock folded in, the password hasher with its random salt, and the
  database server with its schema. Each call that can throw returns an option, \<open>None\<close>
  for the exception. \<open>coerce\<close> is the server's conversion of a non-null parameter to
  the type of the column it is compared with or stored in, and \<open>accepts\<close> says whether
  the server runs a statement with its parameters in a state (connection, types and
  constraints); a statement it does not accept throws and changes nothing.
\<close>

record env =
  jwt_sign :: "jsval \<Rightarrow> string option"
  jwt_verify :: "string \<Rightarrow> jsval option"
  bcrypt_genSalt :: "nat \<Rightarrow> string option"
  bcrypt_hash :: "jsval \<Rightarrow> string \<Rightarrow> string option"
  bcrypt_compare :: "jsval \<Rightarrow> jsval \<Rightarrow> bool option"
  coerce :: "column \<Rightarrow> jsval \<Rightarrow> datum"
  accepts :: "sql \<Rightarrow> jsval list \<Rightarrow> store \<Rightarrow> bool"

text \<open>A query parameter: the driver sends \<^verbatim>\<open>undefined\<close> and \<^verbatim>\<open>null\<close> as NULL.\<close>

definition bind :: "env \<Rightarrow> column \<Rightarrow> jsval \<Rightarrow> cell" where
  "bind E col v = (if v = Undefined \<or> v = Null then None else Some (coerce E col v))"

text \<open>SQL's \<^verbatim>\<open>a = b\<close> in a WHERE or ON clause: true only when neither side is NULL.\<close>

fun sql_eq :: "cell \<Rightarrow> cell \<Rightarrow> bool" where
  "sql_eq (Some x) (Some y) = (x = y)"
| "sql_eq a b = False"

text \<open>\<^verbatim>\<open>COALESCE(p, col)\<close>\<close>

fun coalesce :: "cell \<Rightarrow> cell \<Rightarrow> cell" where
  "coalesce (Some x) old = Some x"
| "coalesce None old = old"

text \<open>\<^verbatim>\<open>await con.query(text, values)\<close>: the result, or \<open>None\<close> when the query throws.\<close>

definition con_query :: "env \<Rightarrow> store \<Rightarrow> sql \<Rightarrow> jsval list \<Rightarrow> 'a \<Rightarrow> 'a option" where
  "con_query E s q values result = (if accepts E q values s then Some result else None)"

text \<open>A cell as the driver hands it to JavaScript, and the rows as objects.\<close>

fun to_js :: "cell \<Rightarrow> jsval" where
  "to_js None = Null"
| "to_js (Some (DInt n)) = Num (of_int n)"
| "to_js (Some (DText t)) = Str t"

definition user_public :: "user_row \<Rightarrow> jsval" where
  "user_public u = Obj [(''id'', to_js (u_id u)), (''name'', to_js (u_name u)),
     (''email'', to_js (u_email u)), (''role'', to_js (u_role u))]"

definition course_json :: "course_row \<Rightarrow> jsval" where
  "course_json c = Obj [(''id'', to_js (c_id c)), (''title'', to_js (c_title c)),
     (''description'', to_js (c_description c)), (''instructor_id'', to_js (c_instructor_id c))]"

definition enrollment_json :: "enrollment_row \<Rightarrow> jsval" where
  "enrollment_json e = Obj [(''course_id'', to_js (e_course_id e)), (''user_id'', to_js (e_user_id e))]"

definition review_json :: "review_row \<Rightarrow> jsval" where
  "review_json r = Obj [(''course_id'', to_js (r_course_id r)), (''user_id'', to_js (r_user_id r)),
     (''rating'', to_js (r_rating r)), (''comment'', to_js (r_comment r))]"

definition review_listing :: "review_row \<times> user_row \<Rightarrow> jsval" where
  "review_listing p = Obj [(''rating'', to_js (r_rating (fst p))), (''comment'', to_js (r_comment (fst p))),
     (''reviewer_name'', to_js (u_name (snd p)))]"

text \<open>\<^verbatim>\<open>result.rows[0]\<close>, which is \<^verbatim>\<open>undefined\<close> on an empty result.\<close>

fun rows0 :: "jsval list \<Rightarrow> jsval" where
  "rows0 [] = Undefined"
| "rows0 (r # rs) = r"

section \<open>The statements\<close>

text \<open>\<^verbatim>\<open>SELECT * FROM Users WHERE email = $1\<close>\<close>

definition select_user_by_email :: "env \<Rightarrow> store \<Rightarrow> jsval \<Rightarrow> user_row list" where
  "select_user_by_email E s email =
     filter (\<lambda>u. sql_eq (u_email u) (bind E Users_email email)) (users s)"

text \<open>\<^verbatim>\<open>INSERT INTO Users (name, email, password, role) VALUES ($1, $2, $3, $4)
  RETURNING id, name, email, role\<close>\<close>

definition new_user :: "env \<Rightarrow> store \<Rightarrow> jsval \<Rightarrow> jsval \<Rightarrow> jsval \<Rightarrow> jsval \<Rightarrow> user_row" where
  "new_user E s name email hashedPassword role =
     \<lparr>u_id = Some (DInt (next_user_id s)), u_name = bind E Users_name name,
      u_email = bind E Users_email email, u_password = bind E Users_password hashedPassword,
      u_role = bind E Users_role role\<rparr>"

definition insert_user :: "env \<Rightarrow> store \<Rightarrow> jsval \<Rightarrow> jsval \<Rightarrow> jsval \<Rightarrow> jsval \<Rightarrow> jsval list \<times> store" where
  "insert_user E s name email hashedPassword role =
     (let u = new_user E s name email hashedPassword role
      in ([user_public u], s\<lparr>users := users s @ [u], next_user_id := next_user_id s + 1\<rparr>))"

text \<open>\<^verbatim>\<open>INSERT INTO Courses (title, description, instructor_id) VALUES ($1, $2, $3) RETURNING *\<close>\<close>

definition new_course :: "env \<Rightarrow> store \<Rightarrow> jsval \<Rightarrow> jsval \<Rightarrow> jsval \<Rightarrow> course_row" where
  "new_course E s title description instructor_id =
     \<lparr>c_id = Some (DInt (next_course_id s)), c_title = bind E Courses_title title,
      c_description = bind E Courses_description description,
      c_instructor_id = bind E Courses_instructor_id instructor_id\<rparr>"

definition insert_course :: "env \<Rightarrow> store \<Rightarrow> jsval \<Rightarrow> jsval \<Rightarrow> jsval \<Rightarrow> jsval list \<times> store" where
  "insert_course E s title description instructor_id =
     (let c = new_course E s title description instructor_id
      in ([course_json c], s\<lparr>courses := courses s @ [c], next_course_id := next_course_id s + 1\<rparr>))"

text \<open>\<^verbatim>\<open>SELECT * FROM Courses WHERE id = $1\<close>\<close>

definition select_course_by_id :: "env \<Rightarrow> store \<Rightarrow> jsval \<Rightarrow> course_row list" where
  "select_course_by_id E s ident =
     filter (\<lambda>c. sql_eq (c_id c) (bind E Courses_id ident)) (courses s)"

text \<open>\<^verbatim>\<open>UPDATE Courses SET title = COALESCE($1, title), description = COALESCE($2, description)
  WHERE id = $3 RETURNING *\<close>\<close>

definition set_course :: "env \<Rightarrow> jsval \<Rightarrow> jsval \<Rightarrow> course_row \<Rightarrow> course_row" where
  "set_course E title description c =
     c\<lparr>c_title := coalesce (bind E Courses_title title) (c_title c),
       c_description := coalesce (bind E Courses_description description) (c_description c)\<rparr>"

definition update_course :: "env \<Rightarrow> store \<Rightarrow> jsval \<Rightarrow> jsval \<Rightarrow> jsval \<Rightarrow> jsval list \<times> store" where
  "update_course E s title description ident =
     (map (\<lambda>c. course_json (set_course E title description c)) (select_course_by_id E s ident),
      s\<lparr>courses := map (\<lambda>c. if sql_eq (c_id c) (bind E Courses_id ident)
                               then set_course E title description c else c) (courses s)\<rparr>)"

text \<open>\<^verbatim>\<open>DELETE FROM Courses WHERE id = $1\<close>\<close>

definition delete_course :: "env \<Rightarrow> store \<Rightarrow> jsval \<Rightarrow> store" where
  "delete_course E s ident =
     s\<lparr>courses := filter (\<lambda>c. \<not> sql_eq (c_id c) (bind E Courses_id ident)) (courses s)\<rparr>"

text \<open>\<^verbatim>\<open>SELECT * FROM Courses WHERE instructor_id = $1\<close>\<close>

definition select_courses_by_instructor :: "env \<Rightarrow> store \<Rightarrow> jsval \<Rightarrow> course_row list" where
  "select_courses_by_instructor E s instructorId =
     filter (\<lambda>c. sql_eq (c_instructor_id c) (bind E Courses_instructor_id instructorId)) (courses s)"

text \<open>\<^verbatim>\<open>... FROM Enrollments WHERE course_id = $1 AND user_id = $2\<close>: the rows the SELECT
  returns and the DELETE removes.\<close>

definition enrollment_matches :: "env \<Rightarrow> jsval \<Rightarrow> jsval \<Rightarrow> enrollment_row \<Rightarrow> bool" where
  "enrollment_matches E courseId userId e =
     (sql_eq (e_course_id e) (bind E Enrollments_course_id courseId) \<and>
      sql_eq (e_user_id e) (bind E Enrollments_user_id userId))"

definition select_enrollment :: "env \<Rightarrow> store \<Rightarrow> jsval \<Rightarrow> jsval \<Rightarrow> enrollment_row list" where
  "select_enrollment E s courseId userId = filter (enrollment_matches E courseId userId) (enrollments s)"

text \<open>\<^verbatim>\<open>INSERT INTO Enrollments (course_id, user_id) VALUES ($1, $2) RETURNING *\<close>\<close>

definition new_enrollment :: "env \<Rightarrow> jsval \<Rightarrow> jsval \<Rightarrow> enrollment_row" where
  "new_enrollment E courseId userId =
     \<lparr>e_course_id = bind E Enrollments_course_id courseId, e_user_id = bind E Enrollments_user_id userId\<rparr>"

definition insert_enrollment :: "env \<Rightarrow> store \<Rightarrow> jsval \<Rightarrow> jsval \<Rightarrow> jsval list \<times> store" where
  "insert_enrollment E s courseId userId =
     (let e = new_enrollment E courseId userId
      in ([enrollment_json e], s\<lparr>enrollments := enrollments s @ [e]\<rparr>))"

text \<open>\<^verbatim>\<open>DELETE FROM Enrollments WHERE course_id = $1 AND user_id = $2\<close>\<close>

definition delete_enrollment :: "env \<Rightarrow> store \<Rightarrow> jsval \<Rightarrow> jsval \<Rightarrow> store" where
  "delete_enrollment E s courseId userId =
     s\<lparr>enrollments := filter (\<lambda>e. \<not> enrollment_matches E courseId userId e) (enrollments s)\<rparr>"

text \<open>\<^verbatim>\<open>SELECT c.id, c.title, c.description, c.instructor_id FROM courses c
  JOIN Enrollments e ON c.id = e.course_id WHERE e.user_id = $1\<close>\<close>

definition select_enrolled_courses :: "env \<Rightarrow> store \<Rightarrow> jsval \<Rightarrow> course_row list" where
  "select_enrolled_courses E s userId =
     concat (map (\<lambda>c. map (\<lambda>e. c)
       (filter (\<lambda>e. sql_eq (c_id c) (e_course_id e) \<and>
                    sql_eq (e_user_id e) (bind E Enrollments_user_id userId)) (enrollments s)))
       (courses s))"

text \<open>\<^verbatim>\<open>INSERT INTO Reviews (course_id, user_id, rating, comment) VALUES ($1, $2, $3, $4)
  RETURNING *\<close>\<close>

definition new_review :: "env \<Rightarrow> jsval \<Rightarrow> jsval \<Rightarrow> jsval \<Rightarrow> jsval \<Rightarrow> review_row" where
  "new_review E courseId userId rating comment =
     \<lparr>r_course_id = bind E Reviews_course_id courseId, r_user_id = bind E Reviews_user_id userId,
      r_rating = bind E Reviews_rating rating, r_comment = bind E Reviews_comment comment\<rparr>"

definition insert_review :: "env \<Rightarrow> store \<Rightarrow> jsval \<Rightarrow> jsval \<Rightarrow> jsval \<Rightarrow> jsval \<Rightarrow> jsval list \<times> store" where
  "insert_review E s courseId userId rating comment =
     (let r = new_review E courseId userId rating comment
      in ([review_json r], s\<lparr>reviews := reviews s @ [r]\<rparr>))"

text \<open>\<^verbatim>\<open>SELECT * FROM Reviews WHERE course_id = $1 AND user_id = $2\<close>\<close>

definition review_matches :: "env \<Rightarrow> jsval \<Rightarrow> jsval \<Rightarrow> review_row \<Rightarrow> bool" where
  "review_matches E courseId userId r =
     (sql_eq (r_course_id r) (bind E Reviews_course_id courseId) \<and>
      sql_eq (r_user_id r) (bind E Reviews_user_id userId))"

definition select_review :: "env \<Rightarrow> store \<Rightarrow> jsval \<Rightarrow> jsval \<Rightarrow> review_row list" where
  "select_review E s courseId userId = filter (review_matches E courseId userId) (reviews s)"

text \<open>\<^verbatim>\<open>UPDATE Reviews SET rating = COALESCE($1, rating), comment = COALESCE($2, comment)
  WHERE course_id = $3 AND user_id = $4 RETURNING *\<close>\<close>

definition set_review :: "env \<Rightarrow> jsval \<Rightarrow> jsval \<Rightarrow> review_row \<Rightarrow> review_row" where
  "set_review E rating comment r =
     r\<lparr>r_rating := coalesce (bind E Reviews_rating rating) (r_rating r),
       r_comment := coalesce (bind E Reviews_comment comment) (r_comment r)\<rparr>"

definition update_review :: "env \<Rightarrow> store \<Rightarrow> jsval \<Rightarrow> jsval \<Rightarrow> jsval \<Rightarrow> jsval \<Rightarrow> jsval list \<times> store" where
  "update_review E s rating comment courseId userId =
     (map (\<lambda>r. review_json (set_review E rating comment r)) (select_review E s courseId userId),
      s\<lparr>reviews := map (\<lambda>r. if review_matches E courseId userId r
                               then set_review E rating comment r else r) (reviews s)\<rparr>)"

text \<open>\<^verbatim>\<open>SELECT r.rating, r.comment, u.name AS reviewer_name FROM Reviews r
  JOIN Users u ON r.user_id = u.id WHERE r.course_id = $1\<close>\<close>

definition select_course_reviews :: "env \<Rightarrow> store \<Rightarrow> jsval \<Rightarrow> (review_row \<times> user_row) list" where
  "select_course_reviews E s courseId =
     concat (map (\<lambda>r. map (\<lambda>u. (r, u))
       (filter (\<lambda>u. sql_eq (r_user_id r) (u_id u) \<and>
                    sql_eq (r_course_id r) (bind E Reviews_course_id courseId)) (users s)))
       (reviews s))"

section \<open>The token middleware\<close>

text \<open>\<^verbatim>\<open>s.startsWith(p)\<close>, and \<^verbatim>\<open>s.replace(p, r)\<close> for a string pattern: the first occurrence
  only.\<close>

fun starts_with :: "string \<Rightarrow> string \<Rightarrow> bool" where
  "starts_with [] s = True"
| "starts_with (p # ps) [] = False"
| "starts_with (p # ps) (c # cs) = (p = c \<and> starts_with ps cs)"

fun replace_first :: "string \<Rightarrow> string \<Rightarrow> string \<Rightarrow> string" where
  "replace_first p r [] = (if p = [] then r else [])"
| "replace_first p r (c # cs) =
     (if starts_with p (c # cs) then r @ drop (length p) (c # cs)
      else c # replace_first p r cs)"

text \<open>\<^verbatim>\<open>req.header('Authorization')?.replace('Bearer ', '')\<close>\<close>

definition extract_token :: "request \<Rightarrow> string option" where
  "extract_token req = map_option (replace_first ''Bearer '' []) (authorization req)"

text \<open>\<open>Inl\<close> is the response the middleware sends itself; \<open>Inr\<close> is the request it passes
  to \<^verbatim>\<open>next()\<close>.\<close>

definition verifyToken :: "env \<Rightarrow> request \<Rightarrow> response + request" where
  "verifyToken E req =
     (case extract_token req of
        None \<Rightarrow> Inl (json 401 [(''message'', Str ''Access Denied: No Token Provided'')])
      | Some token \<Rightarrow>
          if token = [] then Inl (json 401 [(''message'', Str ''Access Denied: No Token Provided'')])
          else (case jwt_verify E token of
                  None \<Rightarrow> Inl (json 403 [(''message'', Str ''Invalid or Expired Token'')])
                | Some decoded \<Rightarrow> Inr (req\<lparr>user := decoded\<rparr>)))"

section \<open>The handlers\<close>

text \<open>
  Each handler maps the state of the store and the request to the response it sends and
  the state it leaves. Its \<^verbatim>\<open>catch\<close> block is the \<open>None\<close> branch of every call that
  can throw inside its \<^verbatim>\<open>try\<close>.
\<close>

definition server_error :: response where
  "server_error = json 500 [(''error'', Str ''Server error'')]"

text \<open>\<^verbatim>\<open>app.post('/api/users/register', ...)\<close>\<close>

definition post_users_register :: "env \<Rightarrow> store \<Rightarrow> request \<Rightarrow> response \<times> store" where
  "post_users_register E s req =
     (let name = reqbody req ''name''; email = reqbody req ''email'';
          password = reqbody req ''password''; role = reqbody req ''role''
      in if falsy name \<or> falsy email \<or> falsy password \<or> falsy role
         then (json 400 [(''error'', Str ''All fields are required'')], s)
         else (case con_query E s SelectUserByEmail [email] (select_user_by_email E s email) of
                 None \<Rightarrow> (server_error, s)
               | Some userCheck \<Rightarrow>
                   if length userCheck > 0
                   then (json 400 [(''error'', Str ''User already exists'')], s)
                   else (case bcrypt_genSalt E 10 of
                           None \<Rightarrow> (server_error, s)
                         | Some salt \<Rightarrow>
                             (case bcrypt_hash E password salt of
                                None \<Rightarrow> (server_error, s)
                              | Some hashedPassword \<Rightarrow>
                                  (case con_query E s InsertUser [name, email, Str hashedPassword, role]
                                          (insert_user E s name email (Str hashedPassword) role) of
                                     None \<Rightarrow> (server_error, s)
                                   | Some (newUser, s') \<Rightarrow>
                                       (json 201 [(''message'', Str ''User registered successfully''),
                                                  (''user'', rows0 newUser)], s'))))))"

text \<open>\<^verbatim>\<open>generateToken(userId)\<close>: \<^verbatim>\<open>jwt.sign({ id: userId }, JWT_SECRET_KEY, { expiresIn: '7d' })\<close>\<close>

definition generateToken :: "env \<Rightarrow> jsval \<Rightarrow> string option" where
  "generateToken E userId = jwt_sign E (Obj [(''id'', userId)])"

text \<open>\<^verbatim>\<open>app.post('/api/users/login', ...)\<close>\<close>

definition post_users_login :: "env \<Rightarrow> store \<Rightarrow> request \<Rightarrow> response \<times> store" where
  "post_users_login E s req =
     (let email = reqbody req ''email''; password = reqbody req ''password''
      in if falsy email \<or> falsy password
         then (json 400 [(''error'', Str ''All fields are required'')], s)
         else (case con_query E s SelectUserByEmail [email] (select_user_by_email E s email) of
                 None \<Rightarrow> (server_error, s)
               | Some [] \<Rightarrow> (json 400 [(''error'', Str ''Invalid credentials'')], s)
               | Some (u # us) \<Rightarrow>
                   (case bcrypt_compare E password (to_js (u_password u)) of
                      None \<Rightarrow> (server_error, s)
                    | Some isMatch \<Rightarrow>
                        if isMatch = False
                        then (json 400 [(''error'', Str ''Invalid credentials'')], s)
                        else (case generateToken E (to_js (u_id u)) of
                                None \<Rightarrow> (server_error, s)
                              | Some token \<Rightarrow>
                                  (json 200 [(''message'', Str ''Login successful''),
                                             (''token'', Str token)], s)))))"

text \<open>\<^verbatim>\<open>app.post('/api/courses', verifyToken, ...)\<close>\<close>

definition post_courses :: "env \<Rightarrow> store \<Rightarrow> request \<Rightarrow> response \<times> store" where
  "post_courses E s req =
     (let title = reqbody req ''title''; description = reqbody req ''description'';
          instructor_id = reqbody req ''instructor_id''
      in if falsy title \<or> falsy instructor_id
         then (json 400 [(''error'', Str ''Title and Instructor ID are required'')], s)
         else (case con_query E s InsertCourse [title, description, instructor_id]
                      (insert_course E s title description instructor_id) of
                 None \<Rightarrow> (server_error, s)
               | Some (newCourse, s') \<Rightarrow>
                   (json 201 [(''message'', Str ''Course added successfully''),
                              (''course'', rows0 newCourse)], s')))"

text \<open>\<^verbatim>\<open>app.put('/api/courses/:id', verifyToken, ...)\<close>\<close>

definition put_courses_id :: "env \<Rightarrow> store \<Rightarrow> request \<Rightarrow> response \<times> store" where
  "put_courses_id E s req =
     (let ident = Str (params req ''id'');
          title = reqbody req ''title''; description = reqbody req ''description''
      in if falsy title \<and> falsy description
         then (json 400 [(''error'', Str ''At least one field (title or description) must be provided'')], s)
         else (case con_query E s SelectCourseById [ident] (select_course_by_id E s ident) of
                 None \<Rightarrow> (server_error, s)
               | Some [] \<Rightarrow> (json 404 [(''error'', Str ''Course not found'')], s)
               | Some (c # cs) \<Rightarrow>
                   (case con_query E s UpdateCourse [title, description, ident]
                           (update_course E s title description ident) of
                      None \<Rightarrow> (server_error, s)
                    | Some (updatedCourse, s') \<Rightarrow>
                        (json 200 [(''message'', Str ''Course updated successfully''),
                                   (''course'', rows0 updatedCourse)], s'))))"

text \<open>\<^verbatim>\<open>app.delete('/api/courses/:id', verifyToken, ...)\<close>\<close>

definition delete_courses_id :: "env \<Rightarrow> store \<Rightarrow> request \<Rightarrow> response \<times> store" where
  "delete_courses_id E s req =
     (let ident = Str (params req ''id'')
      in case con_query E s SelectCourseById [ident] (select_course_by_id E s ident) of
           None \<Rightarrow> (server_error, s)
         | Some [] \<Rightarrow> (json 404 [(''error'', Str ''Course not found'')], s)
         | Some (c # cs) \<Rightarrow>
             (case con_query E s DeleteCourse [ident] (delete_course E s ident) of
                None \<Rightarrow> (server_error, s)
              | Some s' \<Rightarrow> (json 200 [(''message'', Str ''Course deleted successfully'')], s')))"

text \<open>\<^verbatim>\<open>app.get('/api/courses/:instructorId', ...)\<close>\<close>

definition get_courses_instructorId :: "env \<Rightarrow> store \<Rightarrow> request \<Rightarrow> response \<times> store" where
  "get_courses_instructorId E s req =
     (let instructorId = Str (params req ''instructorId'')
      in case con_query E s SelectCoursesByInstructor [instructorId]
                (select_courses_by_instructor E s instructorId) of
           None \<Rightarrow> (server_error, s)
         | Some rows \<Rightarrow> (json 200 [(''courses'', Arr (map course_json rows))], s))"

text \<open>\<^verbatim>\<open>app.post('/api/enrollments', verifyToken, ...)\<close>\<close>

definition post_enrollments :: "env \<Rightarrow> store \<Rightarrow> request \<Rightarrow> response \<times> store" where
  "post_enrollments E s req =
     (let courseId = reqbody req ''courseId''; userId = reqbody req ''userId''
      in if falsy courseId \<or> falsy userId
         then (json 400 [(''error'', Str ''Course ID and User ID are required'')], s)
         else (case con_query E s SelectEnrollment [courseId, userId]
                      (select_enrollment E s courseId userId) of
                 None \<Rightarrow> (server_error, s)
               | Some existingEnrollment \<Rightarrow>
                   if length existingEnrollment > 0
                   then (json 400 [(''error'', Str ''User is already enrolled in this course'')], s)
                   else (case con_query E s InsertEnrollment [courseId, userId]
                                (insert_enrollment E s courseId userId) of
                           None \<Rightarrow> (server_error, s)
                         | Some (newEnrollment, s') \<Rightarrow>
                             (json 201 [(''message'', Str ''Enrollment successful''),
                                        (''enrollment'', rows0 newEnrollment)], s'))))"

text \<open>\<^verbatim>\<open>app.delete('/api/enrollments', verifyToken, ...)\<close>\<close>

definition delete_enrollments :: "env \<Rightarrow> store \<Rightarrow> request \<Rightarrow> response \<times> store" where
  "delete_enrollments E s req =
     (let courseId = reqbody req ''courseId''; userId = reqbody req ''userId''
      in if falsy courseId \<or> falsy userId
         then (json 400 [(''error'', Str ''Course ID and User ID are required'')], s)
         else (case con_query E s SelectEnrollment [courseId, userId]
                      (select_enrollment E s courseId userId) of
                 None \<Rightarrow> (server_error, s)
               | Some [] \<Rightarrow> (json 404 [(''error'', Str ''Enrollment not found'')], s)
               | Some (e # es) \<Rightarrow>
                   (case con_query E s DeleteEnrollment [courseId, userId]
                           (delete_enrollment E s courseId userId) of
                      None \<Rightarrow> (server_error, s)
                    | Some s' \<Rightarrow> (json 200 [(''message'', Str ''Disenrollment successful'')], s'))))"

text \<open>\<^verbatim>\<open>app.get('/api/enrollments/:userId', ...)\<close>\<close>

definition get_enrollments_userId :: "env \<Rightarrow> store \<Rightarrow> request \<Rightarrow> response \<times> store" where
  "get_enrollments_userId E s req =
     (let userId = Str (params req ''userId'')
      in case con_query E s SelectEnrolledCourses [userId] (select_enrolled_courses E s userId) of
           None \<Rightarrow> (server_error, s)
         | Some [] \<Rightarrow> (json 404 [(''message'', Str ''No enrolled courses found'')], s)
         | Some (c # cs) \<Rightarrow> (json 200 [(''enrolledCourses'', Arr (map course_json (c # cs)))], s))"

text \<open>\<^verbatim>\<open>app.post('/api/courses/:courseId/reviews', ...)\<close>\<close>

definition post_courses_courseId_reviews :: "env \<Rightarrow> store \<Rightarrow> request \<Rightarrow> response \<times> store" where
  "post_courses_courseId_reviews E s req =
     (let courseId = Str (params req ''courseId'');
          rating = reqbody req ''rating''; comment = reqbody req ''comment'';
          userId = reqbody req ''userId''
      in if falsy courseId \<or> falsy rating \<or> falsy userId
         then (json 400 [(''error'', Str ''Course ID, Rating, and User ID are required'')], s)
         else (case con_query E s InsertReview [courseId, userId, rating, comment]
                      (insert_review E s courseId userId rating comment) of
                 None \<Rightarrow> (server_error, s)
               | Some (newReview, s') \<Rightarrow>
                   (json 201 [(''message'', Str ''Feedback submitted successfully''),
                              (''review'', rows0 newReview)], s')))"

text \<open>\<^verbatim>\<open>app.put('/api/courses/:courseId/reviews/:userId', ...)\<close>\<close>

definition put_courses_courseId_reviews_userId :: "env \<Rightarrow> store \<Rightarrow> request \<Rightarrow> response \<times> store" where
  "put_courses_courseId_reviews_userId E s req =
     (let courseId = Str (params req ''courseId''); userId = Str (params req ''userId'');
          rating = reqbody req ''rating''; comment = reqbody req ''comment''
      in if falsy rating \<and> falsy comment
         then (json 400 [(''error'', Str ''At least one field (rating or comment) must be provided'')], s)
         else (case con_query E s SelectReview [courseId, userId] (select_review E s courseId userId) of
                 None \<Rightarrow> (server_error, s)
               | Some [] \<Rightarrow> (json 404 [(''error'', Str ''Review not found'')], s)
               | Some (r # rs) \<Rightarrow>
                   (case con_query E s UpdateReview [rating, comment, courseId, userId]
                           (update_review E s rating comment courseId userId) of
                      None \<Rightarrow> (server_error, s)
                    | Some (updatedReview, s') \<Rightarrow>
                        (json 200 [(''message'', Str ''Review updated successfully''),
                                   (''review'', rows0 updatedReview)], s'))))"

text \<open>\<^verbatim>\<open>app.get('/api/courses/:courseId/reviews', ...)\<close>\<close>

definition get_courses_courseId_reviews :: "env \<Rightarrow> store \<Rightarrow> request \<Rightarrow> response \<times> store" where
  "get_courses_courseId_reviews E s req =
     (let courseId = Str (params req ''courseId'')
      in case con_query E s SelectCourseReviews [courseId] (select_course_reviews E s courseId) of
           None \<Rightarrow> (server_error, s)
         | Some [] \<Rightarrow> (json 404 [(''message'', Str ''No reviews found for this course'')], s)
         | Some (r # rs) \<Rightarrow> (json 200 [(''reviews'', Arr (map review_listing (r # rs)))], s))"

section \<open>The routes\<close>

text \<open>
  One constructor for each \<^verbatim>\<open>app.METHOD(path, ...)\<close> of the source. A route registered with
  \<^verbatim>\<open>verifyToken\<close> runs its handler on the request the middleware passes on, and only then.
\<close>

datatype route =
    POST_users_register
  | POST_users_login
  | POST_courses
  | PUT_courses_id
  | DELETE_courses_id
  | GET_courses_instructorId
  | POST_enrollments
  | DELETE_enrollments
  | GET_enrollments_userId
  | POST_courses_courseId_reviews
  | PUT_courses_courseId_reviews_userId
  | GET_courses_courseId_reviews

definition protected ::
  "(env \<Rightarrow> store \<Rightarrow> request \<Rightarrow> response \<times> store) \<Rightarrow> env \<Rightarrow> store \<Rightarrow> request \<Rightarrow> response \<times> store" where
  "protected handler E s req =
     (case verifyToken E req of
        Inl denied \<Rightarrow> (denied, s)
      | Inr req' \<Rightarrow> handler E s req')"

fun handle :: "route \<Rightarrow> env \<Rightarrow> store \<Rightarrow> request \<Rightarrow> response \<times> store" where
  "handle POST_users_register = post_users_register"
| "handle POST_users_login = post_users_login"
| "handle POST_courses = protected post_courses"
| "handle PUT_courses_id = protected put_courses_id"
| "handle DELETE_courses_id = protected delete_courses_id"
| "handle GET_courses_instructorId = get_courses_instructorId"
| "handle POST_enrollments = protected post_enrollments"
| "handle DELETE_enrollments = protected delete_enrollments"
| "handle GET_enrollments_userId = get_enrollments_userId"
| "handle POST_courses_courseId_reviews = post_courses_courseId_reviews"
| "handle PUT_courses_courseId_reviews_userId = put_courses_courseId_reviews_userId"
| "handle GET_courses_courseId_reviews = get_courses_courseId_reviews"

text \<open>The routes registered with the middleware, and the handler behind each route.\<close>

fun requires_token :: "route \<Rightarrow> bool" where
  "requires_token POST_courses = True"
| "requires_token PUT_courses_id = True"
| "requires_token DELETE_courses_id = True"
| "requires_token POST_enrollments = True"
| "requires_token DELETE_enrollments = True"
| "requires_token r = False"

fun handler_of :: "route \<Rightarrow> env \<Rightarrow> store \<Rightarrow> request \<Rightarrow> response \<times> store" where
  "handler_of POST_users_register = post_users_register"
| "handler_of POST_users_login = post_users_login"
| "handler_of POST_courses = post_courses"
| "handler_of PUT_courses_id = put_courses_id"
| "handler_of DELETE_courses_id = delete_courses_id"
| "handler_of GET_courses_instructorId = get_courses_instructorId"
| "handler_of POST_enrollments = post_enrollments"
| "handler_of DELETE_enrollments = delete_enrollments"
| "handler_of GET_enrollments_userId = get_enrollments_userId"
| "handler_of POST_courses_courseId_reviews = post_courses_courseId_reviews"
| "handler_of PUT_courses_courseId_reviews_userId = put_courses_courseId_reviews_userId"
| "handler_of GET_courses_courseId_reviews = get_courses_courseId_reviews"

section \<open>The enrollment invariant\<close>

text \<open>At most one row of Enrollments for each pair of a course and a user.\<close>

definition one_enrollment_per_pair :: "store \<Rightarrow> bool" where
  "one_enrollment_per_pair s = distinct (map (\<lambda>e. (e_course_id e, e_user_id e)) (enrollments s))"

section \<open>A concrete environment and store\<close>

text \<open>
  An environment in which every statement is accepted, the token \<open>good\<close> verifies, the
  hash of a string is the string behind its salt, the hasher throws on data that is not a
  string (as the bcrypt package does for \<^verbatim>\<open>hash\<close> and \<^verbatim>\<open>compare\<close>), and the server keeps
  strings as text and numbers as integers. The examples below are evaluated in it.
\<close>

definition demo_coerce :: "column \<Rightarrow> jsval \<Rightarrow> datum" where
  "demo_coerce col v = (case v of Str t \<Rightarrow> DText t | Num n \<Rightarrow> DInt \<lfloor>n\<rfloor> | _ \<Rightarrow> DText [])"

definition demo_env :: env where
  "demo_env =
     \<lparr>jwt_sign = (\<lambda>payload. Some ''token''),
      jwt_verify = (\<lambda>t. if t = ''good'' then Some (Obj [(''id'', Num 1)]) else None),
      bcrypt_genSalt = (\<lambda>rounds. Some ''salt''),
      bcrypt_hash = (\<lambda>data salt. case data of Str t \<Rightarrow> Some (salt @ t) | _ \<Rightarrow> None),
      bcrypt_compare = (\<lambda>data hashed. case data of Str t \<Rightarrow> Some (hashed = Str (''salt'' @ t)) | _ \<Rightarrow> None),
      coerce = demo_coerce,
      accepts = (\<lambda>q values s. True)\<rparr>"


definition ada :: user_row where
  "ada = \<lparr>u_id = Some (DInt 1), u_name = Some (DText ''Ada''), u_email = Some (DText ''ada@x.org''),
          u_password = Some (DText ''saltsecret''), u_role = Some (DText ''student'')\<rparr>"

definition logic_course :: course_row where
  "logic_course = \<lparr>c_id = Some (DText ''7''), c_title = Some (DText ''Logic''),
                   c_description = Some (DText ''Proofs''), c_instructor_id = Some (DInt 1)\<rparr>"

definition demo_store :: store where
  "demo_store = \<lparr>users = [ada], courses = [logic_course],
                  enrollments = [\<lparr>e_course_id = Some (DText ''7''), e_user_id = Some (DText ''1'')\<rparr>],
                  reviews = [], next_user_id = 2, next_course_id = 8\<rparr>"

text \<open>A request with no header and no parameters, and a body built from its fields.\<close>

definition no_fields :: "string \<Rightarrow> jsval" where
  "no_fields = (\<lambda>k. Undefined)"

definition bare_request :: request where
  "bare_request = \<lparr>authorization = None, params = (\<lambda>k. []), reqbody = no_fields, user = Undefined\<rparr>"


definition register_body :: "jsval \<Rightarrow> jsval \<Rightarrow> jsval \<Rightarrow> jsval \<Rightarrow> request" where
  "register_body name email password role =
     bare_request\<lparr>reqbody := no_fields(''name'' := name, ''email'' := email,
                                         ''password'' := password, ''role'' := role)\<rparr>"

definition bob :: user_row where
  "bob = \<lparr>u_id = Some (DInt 2), u_name = Some (DText ''Bob''), u_email = Some (DText ''bob@x.org''),
          u_password = Some (DText ''saltpw''), u_role = Some (DText ''student'')\<rparr>"

definition enroll_request :: "jsval \<Rightarrow> jsval \<Rightarrow> request" where
  "enroll_request courseId userId =
     bare_request\<lparr>authorization := Some ''Bearer good'',
                  reqbody := no_fields(''courseId'' := courseId, ''userId'' := userId)\<rparr>"

definition course_update_request :: "string \<Rightarrow> jsval \<Rightarrow> jsval \<Rightarrow> request" where
  "course_update_request ident title description =
     bare_request\<lparr>authorization := Some ''Bearer good'', params := (\<lambda>k. [])(''id'' := ident),
                  reqbody := no_fields(''title'' := title, ''description'' := description)\<rparr>"

definition review_request :: "string \<Rightarrow> jsval \<Rightarrow> jsval \<Rightarrow> jsval \<Rightarrow> request" where
  "review_request courseId userId rating comment =
     bare_request\<lparr>params := (\<lambda>k. [])(''courseId'' := courseId),
                  reqbody := no_fields(''userId'' := userId, ''rating'' := rating, ''comment'' := comment)\<rparr>"

definition review_update_request :: "string \<Rightarrow> string \<Rightarrow> jsval \<Rightarrow> jsval \<Rightarrow> request" where
  "review_update_request courseId userId rating comment =
     bare_request\<lparr>params := (\<lambda>k. [])(''courseId'' := courseId, ''userId'' := userId),
                  reqbody := no_fields(''rating'' := rating, ''comment'' := comment)\<rparr>"

definition path_request :: "string \<Rightarrow> string \<Rightarrow> request" where
  "path_request name v = bare_request\<lparr>params := (\<lambda>k. [])(name := v)\<rparr>"

section \<open>Auxiliary facts\<close>




lemma bind_present: "\<not> falsy v \<Longrightarrow> bind E col v = Some (coerce E col v)"
  by (cases v) (simp_all add: bind_def)

lemma sql_eq_Some: "sql_eq a (Some x) = (a = Some x)"
  by (cases a) simp_all

lemma select_user_by_email_empty_iff:
  "\<not> falsy email \<Longrightarrow>
   (select_user_by_email E s email = []) =
     (\<forall>x \<in> set (users s). u_email x \<noteq> Some (coerce E Users_email email))"
  by (simp add: select_user_by_email_def filter_empty_conv bind_present sql_eq_Some)

lemma enroll_request_fields:
  "reqbody (enroll_request c u) ''courseId'' = c"
  "reqbody (enroll_request c u) ''userId'' = u"
  "authorization (enroll_request c u) = Some ''Bearer good''"
  by (simp_all add: enroll_request_def)

lemma enrollment_matches_iff:
  "\<not> falsy c \<Longrightarrow> \<not> falsy u \<Longrightarrow>
   enrollment_matches E c u e =
     (e = \<lparr>e_course_id = Some (coerce E Enrollments_course_id c),
           e_user_id = Some (coerce E Enrollments_user_id u)\<rparr>)"
  by (cases e) (auto simp: enrollment_matches_def bind_present sql_eq_Some)

lemma select_enrollment_empty_iff:
  "\<not> falsy c \<Longrightarrow> \<not> falsy u \<Longrightarrow>
   (select_enrollment E s c u = []) =
     (\<lparr>e_course_id = Some (coerce E Enrollments_course_id c),
       e_user_id = Some (coerce E Enrollments_user_id u)\<rparr> \<notin> set (enrollments s))"
  by (auto simp: select_enrollment_def filter_empty_conv enrollment_matches_iff)

lemma post_enrollments_exists:
  assumes "\<not> falsy (reqbody req ''courseId'')" "\<not> falsy (reqbody req ''userId'')"
    and "accepts E SelectEnrollment [reqbody req ''courseId'', reqbody req ''userId''] s"
    and "select_enrollment E s (reqbody req ''courseId'') (reqbody req ''userId'') \<noteq> []"
  shows "post_enrollments E s req = (json 400 [(''error'', Str ''User is already enrolled in this course'')], s)"
  using assms by (simp add: post_enrollments_def con_query_def)

lemma post_enrollments_fresh:
  assumes "\<not> falsy (reqbody req ''courseId'')" "\<not> falsy (reqbody req ''userId'')"
    and "accepts E SelectEnrollment [reqbody req ''courseId'', reqbody req ''userId''] s"
    and "select_enrollment E s (reqbody req ''courseId'') (reqbody req ''userId'') = []"
    and "accepts E InsertEnrollment [reqbody req ''courseId'', reqbody req ''userId''] s"
  shows "post_enrollments E s req =
     (json 201 [(''message'', Str ''Enrollment successful''),
                (''enrollment'', enrollment_json (new_enrollment E (reqbody req ''courseId'') (reqbody req ''userId'')))],
      s\<lparr>enrollments := enrollments s @ [new_enrollment E (reqbody req ''courseId'') (reqbody req ''userId'')]\<rparr>)"
  using assms by (simp add: post_enrollments_def con_query_def insert_enrollment_def Let_def)

text \<open>The enroll handler leaves the store as it is, or appends the row of the request.\<close>

lemma post_enrollments_cases:
  "snd (post_enrollments E s req) = s \<or>
   (\<not> falsy (reqbody req ''courseId'') \<and> \<not> falsy (reqbody req ''userId'') \<and>
    select_enrollment E s (reqbody req ''courseId'') (reqbody req ''userId'') = [] \<and>
    snd (post_enrollments E s req) =
      s\<lparr>enrollments := enrollments s @ [new_enrollment E (reqbody req ''courseId'') (reqbody req ''userId'')]\<rparr>)"
  by (auto simp: post_enrollments_def con_query_def insert_enrollment_def Let_def split: option.splits)

lemma delete_enrollments_cases:
  "snd (delete_enrollments E s req) = s \<or>
   snd (delete_enrollments E s req) =
     delete_enrollment E s (reqbody req ''courseId'') (reqbody req ''userId'')"
  by (auto simp: delete_enrollments_def con_query_def Let_def split: option.splits list.splits)

lemma post_enrollments_inv:
  assumes "one_enrollment_per_pair s"
  shows "one_enrollment_per_pair (snd (post_enrollments E s req))"
proof -
  let ?c = "reqbody req ''courseId''" and ?u = "reqbody req ''userId''"
  from post_enrollments_cases [of E s req] show ?thesis
  proof
    assume "snd (post_enrollments E s req) = s"
    with assms show ?thesis by simp
  next
    assume a: "\<not> falsy ?c \<and> \<not> falsy ?u \<and> select_enrollment E s ?c ?u = [] \<and>
      snd (post_enrollments E s req) = s\<lparr>enrollments := enrollments s @ [new_enrollment E ?c ?u]\<rparr>"
    then have fresh: "\<forall>e \<in> set (enrollments s). \<not> enrollment_matches E ?c ?u e"
      by (simp add: select_enrollment_def filter_empty_conv)
    have "(e_course_id (new_enrollment E ?c ?u), e_user_id (new_enrollment E ?c ?u))
            \<notin> (\<lambda>e. (e_course_id e, e_user_id e)) ` set (enrollments s)"
    proof
      assume "(e_course_id (new_enrollment E ?c ?u), e_user_id (new_enrollment E ?c ?u))
            \<in> (\<lambda>e. (e_course_id e, e_user_id e)) ` set (enrollments s)"
      then obtain e where e: "e \<in> set (enrollments s)"
        "e_course_id e = bind E Enrollments_course_id ?c" "e_user_id e = bind E Enrollments_user_id ?u"
        by (auto simp: new_enrollment_def)
      with a have "enrollment_matches E ?c ?u e"
        by (simp add: enrollment_matches_def bind_present)
      with fresh e show False by blast
    qed
    with assms a show ?thesis
      by (simp add: one_enrollment_per_pair_def)
  qed
qed

lemma delete_enrollments_inv:
  assumes "one_enrollment_per_pair s"
  shows "one_enrollment_per_pair (snd (delete_enrollments E s req))"
  using assms delete_enrollments_cases [of E s req]
  by (auto simp: one_enrollment_per_pair_def delete_enrollment_def distinct_map_filter)

lemma protected_inv:
  assumes "\<And>req'. P (snd (h E s req'))" and "P s"
  shows "P (snd (protected h E s req))"
  using assms by (simp add: protected_def split: sum.splits)

lemma demo_env_fields:
  "coerce demo_env = demo_coerce"
  "accepts demo_env = (\<lambda>q values s. True)"
  "bcrypt_genSalt demo_env = (\<lambda>rounds. Some ''salt'')"
  "jwt_verify demo_env ''good'' = Some (Obj [(''id'', Num 1)])"
  by (simp_all add: demo_env_def)

lemma demo_coerce_Str: "demo_coerce col (Str t) = DText t"
  by (simp add: demo_coerce_def)

lemma demo_store_fields:
  "users demo_store = [ada]"
  "courses demo_store = [logic_course]"
  "enrollments demo_store = [\<lparr>e_course_id = Some (DText ''7''), e_user_id = Some (DText ''1'')\<rparr>]"
  "reviews demo_store = []"
  "next_user_id demo_store = 2"
  "next_course_id demo_store = 8"
  by (simp_all add: demo_store_def)

lemma register_dup:
  assumes "\<not> falsy (reqbody req ''name'')" "\<not> falsy (reqbody req ''email'')"
    "\<not> falsy (reqbody req ''password'')" "\<not> falsy (reqbody req ''role'')"
    and "accepts E SelectUserByEmail [reqbody req ''email''] s"
    and "select_user_by_email E s (reqbody req ''email'') \<noteq> []"
  shows "post_users_register E s req = (json 400 [(''error'', Str ''User already exists'')], s)"
  using assms by (simp add: post_users_register_def con_query_def)

lemma register_new:
  assumes "\<not> falsy (reqbody req ''name'')" "\<not> falsy (reqbody req ''email'')"
    "\<not> falsy (reqbody req ''password'')" "\<not> falsy (reqbody req ''role'')"
    and "accepts E SelectUserByEmail [reqbody req ''email''] s"
    and "select_user_by_email E s (reqbody req ''email'') = []"
    and "bcrypt_genSalt E 10 = Some salt"
    and "bcrypt_hash E (reqbody req ''password'') salt = Some hashed"
    and "accepts E InsertUser [reqbody req ''name'', reqbody req ''email'', Str hashed, reqbody req ''role''] s"
  shows "post_users_register E s req =
        (json 201 [(''message'', Str ''User registered successfully''),
                   (''user'', user_public (new_user E s (reqbody req ''name'') (reqbody req ''email'')
                                 (Str hashed) (reqbody req ''role'')))],
         s\<lparr>users := users s @ [new_user E s (reqbody req ''name'') (reqbody req ''email'')
                                 (Str hashed) (reqbody req ''role'')],
            next_user_id := next_user_id s + 1\<rparr>)"
  using assms by (simp add: post_users_register_def con_query_def insert_user_def Let_def)

lemma course_update_request_fields:
  "params (course_update_request i t d) ''id'' = i"
  "reqbody (course_update_request i t d) ''title'' = t"
  "reqbody (course_update_request i t d) ''description'' = d"
  by (simp_all add: course_update_request_def)

lemma bind_Str: "bind E col (Str t) = Some (coerce E col (Str t))"
  by (simp add: bind_def)

lemma select_course_by_id_empty_iff:
  "(select_course_by_id E s (Str i) = []) =
     (\<forall>c \<in> set (courses s). c_id c \<noteq> Some (coerce E Courses_id (Str i)))"
  by (simp add: select_course_by_id_def filter_empty_conv bind_Str sql_eq_Some)

lemma put_courses_id_updates:
  assumes "\<not> (falsy (reqbody req ''title'') \<and> falsy (reqbody req ''description''))"
    and "accepts E SelectCourseById [Str (params req ''id'')] s"
    and "select_course_by_id E s (Str (params req ''id'')) \<noteq> []"
    and "accepts E UpdateCourse [reqbody req ''title'', reqbody req ''description'', Str (params req ''id'')] s"
  shows "put_courses_id E s req =
     (json 200 [(''message'', Str ''Course updated successfully''),
                (''course'', rows0 (fst (update_course E s (reqbody req ''title'')
                                (reqbody req ''description'') (Str (params req ''id'')))))],
      snd (update_course E s (reqbody req ''title'') (reqbody req ''description'') (Str (params req ''id''))))"
proof -
  from assms(3) obtain c cs where "select_course_by_id E s (Str (params req ''id'')) = c # cs"
    by (cases "select_course_by_id E s (Str (params req ''id''))") auto
  with assms(1,2,4) show ?thesis
    by (auto simp: put_courses_id_def con_query_def Let_def case_prod_unfold)
qed

lemma coalesce_bind:
  "coalesce (bind E col v) old = (if v = Undefined \<or> v = Null then old else Some (coerce E col v))"
  by (simp add: bind_def)

lemma update_course_store:
  "snd (update_course E s title description (Str i)) =
     s\<lparr>courses := map (\<lambda>c. if c_id c = Some (coerce E Courses_id (Str i))
                              then set_course E title description c else c) (courses s)\<rparr>"
  by (simp add: update_course_def bind_Str sql_eq_Some)

lemma update_course_returning:
  "fst (update_course E s title description (Str i)) =
     map course_json (filter (\<lambda>c. c_id c = Some (coerce E Courses_id (Str i)))
       (courses (snd (update_course E s title description (Str i)))))"
proof -
  have "filter (\<lambda>c. c_id c = Some k) (map (\<lambda>c. if c_id c = Some k then set_course E title description c else c) xs)
      = map (set_course E title description) (filter (\<lambda>c. c_id c = Some k) xs)" for k xs
    by (induction xs) (auto simp: set_course_def)
  then show ?thesis
    by (simp add: update_course_store)
      (simp add: update_course_def select_course_by_id_def bind_Str sql_eq_Some comp_def)
qed

lemma delete_enrollments_missing:
  assumes "\<not> falsy (reqbody req ''courseId'')" "\<not> falsy (reqbody req ''userId'')"
    and "accepts E SelectEnrollment [reqbody req ''courseId'', reqbody req ''userId''] s"
    and "select_enrollment E s (reqbody req ''courseId'') (reqbody req ''userId'') = []"
  shows "delete_enrollments E s req = (json 404 [(''error'', Str ''Enrollment not found'')], s)"
  using assms by (simp add: delete_enrollments_def con_query_def)

lemma delete_enrollments_found:
  assumes "\<not> falsy (reqbody req ''courseId'')" "\<not> falsy (reqbody req ''userId'')"
    and "accepts E SelectEnrollment [reqbody req ''courseId'', reqbody req ''userId''] s"
    and "select_enrollment E s (reqbody req ''courseId'') (reqbody req ''userId'') \<noteq> []"
    and "accepts E DeleteEnrollment [reqbody req ''courseId'', reqbody req ''userId''] s"
  shows "delete_enrollments E s req =
     (json 200 [(''message'', Str ''Disenrollment successful'')],
      delete_enrollment E s (reqbody req ''courseId'') (reqbody req ''userId''))"
proof -
  from assms(4) obtain e es where
    "select_enrollment E s (reqbody req ''courseId'') (reqbody req ''userId'') = e # es"
    by (cases "select_enrollment E s (reqbody req ''courseId'') (reqbody req ''userId'')") auto
  with assms(1,2,3,5) show ?thesis
    by (simp add: delete_enrollments_def con_query_def)
qed

lemma filter_neq_removeAll: "filter (\<lambda>e. e \<noteq> x) xs = removeAll x xs"
  by (induction xs) auto

lemma delete_enrollment_removeAll:
  "\<not> falsy c \<Longrightarrow> \<not> falsy u \<Longrightarrow>
   delete_enrollment E s c u =
     s\<lparr>enrollments := removeAll \<lparr>e_course_id = Some (coerce E Enrollments_course_id c),
                                  e_user_id = Some (coerce E Enrollments_user_id u)\<rparr> (enrollments s)\<rparr>"
  by (simp add: delete_enrollment_def enrollment_matches_iff filter_neq_removeAll)

lemma get_enrollments_userId_answer:
  assumes "accepts E SelectEnrolledCourses [Str (params req ''userId'')] s"
  shows "fst (get_enrollments_userId E s req) =
     (if select_enrolled_courses E s (Str (params req ''userId'')) = []
      then json 404 [(''message'', Str ''No enrolled courses found'')]
      else json 200 [(''enrolledCourses'',
             Arr (map course_json (select_enrolled_courses E s (Str (params req ''userId'')))))])"
  using assms by (simp add: get_enrollments_userId_def con_query_def Let_def split: list.splits)

lemma select_enrolled_courses_set:
  "set (select_enrolled_courses E s (Str uid)) =
     {k \<in> set (courses s). \<exists>e \<in> set (enrollments s).
        sql_eq (c_id k) (e_course_id e) \<and> e_user_id e = Some (coerce E Enrollments_user_id (Str uid))}"
  by (auto simp: select_enrolled_courses_def bind_def sql_eq_Some)

lemma disenrolled_not_listed:
  assumes "coerce E Enrollments_user_id (Str uid) = du"
    and "k \<in> set (select_enrolled_courses E
           (s\<lparr>enrollments := removeAll \<lparr>e_course_id = Some dc, e_user_id = Some du\<rparr> (enrollments s)\<rparr>)
           (Str uid))"
  shows "c_id k \<noteq> Some dc"
proof
  assume k: "c_id k = Some dc"
  from assms(2) obtain e where e: "e \<in> set (enrollments s)"
    "e \<noteq> \<lparr>e_course_id = Some dc, e_user_id = Some du\<rparr>"
    "sql_eq (c_id k) (e_course_id e)" "e_user_id e = Some du"
    using assms(1) by (auto simp: select_enrolled_courses_set)
  from e(3) k have "e_course_id e = Some dc"
    by (cases "e_course_id e") simp_all
  with e(4) have "e = \<lparr>e_course_id = Some dc, e_user_id = Some du\<rparr>"
    by (cases e) simp
  with e(2) show False by simp
qed

lemma status_json: "status (json code kvs) = code"
  by (simp add: json_def)

lemma post_users_register_writes: "snd (post_users_register E s req) = s \<or> status (fst (post_users_register E s req)) = 201"
  by (simp add: post_users_register_def con_query_def status_json Let_def split: option.splits prod.splits)

lemma post_users_login_reads: "snd (post_users_login E s req) = s"
  by (simp add: post_users_login_def con_query_def Let_def split: option.splits list.splits)

lemma post_courses_writes: "snd (post_courses E s req) = s \<or> status (fst (post_courses E s req)) = 201"
  by (simp add: post_courses_def con_query_def status_json Let_def split: option.splits prod.splits)

lemma put_courses_id_writes: "snd (put_courses_id E s req) = s \<or> status (fst (put_courses_id E s req)) = 200"
  by (simp add: put_courses_id_def con_query_def status_json Let_def split: option.splits list.splits prod.splits)

lemma delete_courses_id_writes: "snd (delete_courses_id E s req) = s \<or> status (fst (delete_courses_id E s req)) = 200"
  by (simp add: delete_courses_id_def con_query_def status_json Let_def split: option.splits list.splits)

lemma get_courses_instructorId_reads: "snd (get_courses_instructorId E s req) = s"
  by (simp add: get_courses_instructorId_def con_query_def Let_def split: option.splits)

lemma post_enrollments_writes: "snd (post_enrollments E s req) = s \<or> status (fst (post_enrollments E s req)) = 201"
  by (simp add: post_enrollments_def con_query_def status_json Let_def split: option.splits prod.splits)

lemma delete_enrollments_writes: "snd (delete_enrollments E s req) = s \<or> status (fst (delete_enrollments E s req)) = 200"
  by (simp add: delete_enrollments_def con_query_def status_json Let_def split: option.splits list.splits)

lemma get_enrollments_userId_reads: "snd (get_enrollments_userId E s req) = s"
  by (simp add: get_enrollments_userId_def con_query_def Let_def split: option.splits list.splits)

lemma post_courses_courseId_reviews_writes: "snd (post_courses_courseId_reviews E s req) = s \<or>
    status (fst (post_courses_courseId_reviews E s req)) = 201"
  by (simp add: post_courses_courseId_reviews_def con_query_def status_json Let_def
      split: option.splits prod.splits)

lemma put_courses_courseId_reviews_userId_writes: "snd (put_courses_courseId_reviews_userId E s req) = s \<or>
    status (fst (put_courses_courseId_reviews_userId E s req)) = 200"
  by (simp add: put_courses_courseId_reviews_userId_def con_query_def status_json Let_def
      split: option.splits list.splits prod.splits)

lemma get_courses_courseId_reviews_reads: "snd (get_courses_courseId_reviews E s req) = s"
  by (simp add: get_courses_courseId_reviews_def con_query_def Let_def split: option.splits list.splits)

lemma handler_of_writes:
  "snd (handler_of rt E s req) = s \<or> status (fst (handler_of rt E s req)) = 200 \<or>
   status (fst (handler_of rt E s req)) = 201"
  using post_users_register_writes [of E s req] post_users_login_reads [of E s req] post_courses_writes [of E s req] put_courses_id_writes [of E s req] delete_courses_id_writes [of E s req] get_courses_instructorId_reads [of E s req]
    post_enrollments_writes [of E s req] delete_enrollments_writes [of E s req] get_enrollments_userId_reads [of E s req] post_courses_courseId_reviews_writes [of E s req] put_courses_courseId_reviews_userId_writes [of E s req] get_courses_courseId_reviews_reads [of E s req]
  by (cases rt) auto

lemma handle_handler_of:
  "handle rt E s req = (if requires_token rt then protected (handler_of rt) E s req else handler_of rt E s req)"
  by (cases rt) simp_all

lemma handle_writes:
  "snd (handle rt E s req) = s \<or> status (fst (handle rt E s req)) = 200 \<or>
   status (fst (handle rt E s req)) = 201"
proof (cases "requires_token rt")
  case False
  then show ?thesis
    using handler_of_writes [of rt E s req] by (simp add: handle_handler_of)
next
  case True
  show ?thesis
  proof (cases "verifyToken E req")
    case (Inl denied)
    with True show ?thesis by (simp add: handle_handler_of protected_def)
  next
    case (Inr req')
    with True show ?thesis
      using handler_of_writes [of rt E s req'] by (simp add: handle_handler_of protected_def)
  qed
qed

lemma post_review_inserts:
  assumes "params req ''courseId'' \<noteq> []" "\<not> falsy (reqbody req ''rating'')" "\<not> falsy (reqbody req ''userId'')"
    and "accepts E InsertReview [Str (params req ''courseId''), reqbody req ''userId'',
           reqbody req ''rating'', reqbody req ''comment''] s"
  shows "post_courses_courseId_reviews E s req =
     (json 201 [(''message'', Str ''Feedback submitted successfully''),
                (''review'', review_json (new_review E (Str (params req ''courseId'')) (reqbody req ''userId'')
                    (reqbody req ''rating'') (reqbody req ''comment'')))],
      s\<lparr>reviews := reviews s @ [new_review E (Str (params req ''courseId'')) (reqbody req ''userId'')
                    (reqbody req ''rating'') (reqbody req ''comment'')]\<rparr>)"
  using assms by (simp add: post_courses_courseId_reviews_def con_query_def insert_review_def Let_def)

lemma new_review_pair:
  "\<not> falsy u \<Longrightarrow>
   r_course_id (new_review E (Str c) u rating comment) = Some (coerce E Reviews_course_id (Str c)) \<and>
   r_user_id (new_review E (Str c) u rating comment) = Some (coerce E Reviews_user_id u)"
  by (simp add: new_review_def bind_Str bind_present)

lemma review_request_fields:
  "params (review_request c u r m) ''courseId'' = c"
  "reqbody (review_request c u r m) ''userId'' = u"
  "reqbody (review_request c u r m) ''rating'' = r"
  "reqbody (review_request c u r m) ''comment'' = m"
  by (simp_all add: review_request_def)

lemma review_update_request_fields:
  "params (review_update_request c u r m) ''courseId'' = c"
  "params (review_update_request c u r m) ''userId'' = u"
  "reqbody (review_update_request c u r m) ''rating'' = r"
  "reqbody (review_update_request c u r m) ''comment'' = m"
  by (simp_all add: review_update_request_def)

lemma path_request_fields: "params (path_request name v) name = v"
  by (simp add: path_request_def)


lemma register_body_fields:
  "reqbody (register_body name email password role) ''name'' = name"
  "reqbody (register_body name email password role) ''email'' = email"
  "reqbody (register_body name email password role) ''password'' = password"
  "reqbody (register_body name email password role) ''role'' = role"
  by (simp_all add: register_body_def)





lemma register_salt_throws:
  assumes "\<not> falsy (reqbody req ''name'')" "\<not> falsy (reqbody req ''email'')"
    "\<not> falsy (reqbody req ''password'')" "\<not> falsy (reqbody req ''role'')"
    and "accepts E SelectUserByEmail [reqbody req ''email''] s"
    and "select_user_by_email E s (reqbody req ''email'') = []"
    and "bcrypt_genSalt E 10 = None"
  shows "post_users_register E s req = (json 500 [(''error'', Str ''Server error'')], s)"
  using assms by (simp add: post_users_register_def con_query_def server_error_def)

lemma register_hash_throws:
  assumes "\<not> falsy (reqbody req ''name'')" "\<not> falsy (reqbody req ''email'')"
    "\<not> falsy (reqbody req ''password'')" "\<not> falsy (reqbody req ''role'')"
    and "accepts E SelectUserByEmail [reqbody req ''email''] s"
    and "select_user_by_email E s (reqbody req ''email'') = []"
    and "bcrypt_genSalt E 10 = Some salt"
    and "bcrypt_hash E (reqbody req ''password'') salt = None"
  shows "post_users_register E s req = (json 500 [(''error'', Str ''Server error'')], s)"
  using assms by (simp add: post_users_register_def con_query_def server_error_def)

lemma register_insert_throws:
  assumes "\<not> falsy (reqbody req ''name'')" "\<not> falsy (reqbody req ''email'')"
    "\<not> falsy (reqbody req ''password'')" "\<not> falsy (reqbody req ''role'')"
    and "accepts E SelectUserByEmail [reqbody req ''email''] s"
    and "select_user_by_email E s (reqbody req ''email'') = []"
    and "bcrypt_genSalt E 10 = Some salt"
    and "bcrypt_hash E (reqbody req ''password'') salt = Some hashed"
    and "\<not> accepts E InsertUser [reqbody req ''name'', reqbody req ''email'', Str hashed, reqbody req ''role''] s"
  shows "post_users_register E s req = (json 500 [(''error'', Str ''Server error'')], s)"
  using assms by (simp add: post_users_register_def con_query_def server_error_def)

lemma put_courses_id_frame:
  "ident = Str (params req ''id'') \<Longrightarrow> title = reqbody req ''title'' \<Longrightarrow>
   description = reqbody req ''description'' \<Longrightarrow>
   \<not> (falsy title \<and> falsy description) \<Longrightarrow>
   accepts E SelectCourseById [ident] s \<Longrightarrow>
   accepts E UpdateCourse [title, description, ident] s \<Longrightarrow>
   \<exists>c \<in> set (courses s). c_id c = Some (coerce E Courses_id ident) \<Longrightarrow>
   put_courses_id E s req = (r, s') \<Longrightarrow>
   r = json 200 [(''message'', Str ''Course updated successfully''),
                 (''course'', rows0 (map course_json
                    (filter (\<lambda>c. c_id c = Some (coerce E Courses_id ident)) (courses s'))))] \<and>
   users s' = users s \<and> enrollments s' = enrollments s \<and> reviews s' = reviews s \<and>
   next_user_id s' = next_user_id s \<and> next_course_id s' = next_course_id s \<and>
   length (courses s') = length (courses s) \<and>
   (\<forall>i < length (courses s).
      c_id (courses s' ! i) = c_id (courses s ! i) \<and>
      c_instructor_id (courses s' ! i) = c_instructor_id (courses s ! i) \<and>
      (if c_id (courses s ! i) = Some (coerce E Courses_id ident)
       then c_title (courses s' ! i) =
              (if title = Undefined \<or> title = Null then c_title (courses s ! i)
               else Some (coerce E Courses_title title)) \<and>
            c_description (courses s' ! i) =
              (if description = Undefined \<or> description = Null then c_description (courses s ! i)
               else Some (coerce E Courses_description description))
       else courses s' ! i = courses s ! i)) \<and>
   (title = Undefined \<longrightarrow> map c_title (courses s') = map c_title (courses s))"
proof -
  assume f: "ident = Str (params req ''id'')" "title = reqbody req ''title''"
    "description = reqbody req ''description''"
  assume t: "\<not> (falsy title \<and> falsy description)"
  assume q: "accepts E SelectCourseById [ident] s" "accepts E UpdateCourse [title, description, ident] s"
  assume ex: "\<exists>c \<in> set (courses s). c_id c = Some (coerce E Courses_id ident)"
  assume run: "put_courses_id E s req = (r, s')"
  from ex have ne: "select_course_by_id E s (Str (params req ''id'')) \<noteq> []"
    unfolding f by (simp add: select_course_by_id_empty_iff)
  have "put_courses_id E s req =
     (json 200 [(''message'', Str ''Course updated successfully''),
                (''course'', rows0 (fst (update_course E s title description ident)))],
      snd (update_course E s title description ident))"
    using t q unfolding f by (intro put_courses_id_updates ne)
  with run
  have r: "r = json 200 [(''message'', Str ''Course updated successfully''),
                (''course'', rows0 (fst (update_course E s title description ident)))]"
    and s': "s' = snd (update_course E s title description ident)"
    by simp_all
  have s'': "s' = s\<lparr>courses := map (\<lambda>c. if c_id c = Some (coerce E Courses_id ident)
                              then set_course E title description c else c) (courses s)\<rparr>"
    unfolding s' f(1) by (rule update_course_store)
  have "fst (update_course E s title description ident) =
      map course_json (filter (\<lambda>c. c_id c = Some (coerce E Courses_id ident)) (courses s'))"
    unfolding s' f(1) by (rule update_course_returning)
  with r have resp: "r = json 200 [(''message'', Str ''Course updated successfully''),
                 (''course'', rows0 (map course_json
                    (filter (\<lambda>c. c_id c = Some (coerce E Courses_id ident)) (courses s'))))]"
    by simp
  have frame: "users s' = users s \<and> enrollments s' = enrollments s \<and> reviews s' = reviews s \<and>
      next_user_id s' = next_user_id s \<and> next_course_id s' = next_course_id s \<and>
      length (courses s') = length (courses s)"
    by (simp add: s'')
  have rows: "\<forall>i < length (courses s).
      c_id (courses s' ! i) = c_id (courses s ! i) \<and>
      c_instructor_id (courses s' ! i) = c_instructor_id (courses s ! i) \<and>
      (if c_id (courses s ! i) = Some (coerce E Courses_id ident)
       then c_title (courses s' ! i) =
              (if title = Undefined \<or> title = Null then c_title (courses s ! i)
               else Some (coerce E Courses_title title)) \<and>
            c_description (courses s' ! i) =
              (if description = Undefined \<or> description = Null then c_description (courses s ! i)
               else Some (coerce E Courses_description description))
       else courses s' ! i = courses s ! i)"
    by (simp add: s'' set_course_def coalesce_bind)
  have only: "title = Undefined \<longrightarrow> map c_title (courses s') = map c_title (courses s)"
    by (simp add: s'' set_course_def coalesce_bind comp_def)
  from resp frame rows only show ?thesis by blast
qed

lemma put_courses_id_rejects:
  assumes "falsy (reqbody req ''title'')" "falsy (reqbody req ''description'')"
  shows "put_courses_id E s req =
     (json 400 [(''error'', Str ''At least one field (title or description) must be provided'')], s)"
  using assms by (simp add: put_courses_id_def)

section \<open>The token gate\<close>



section \<open>Login\<close>




section \<open>Registration\<close>

text \<open>
  C3, as amended. For a registration request whose four fields pass the presence test and
  whose user lookup the database answers: when a user row already carries the email, the
  response is 400 \<open>User already exists\<close> and the store is unchanged; when none does and
  the salt, the hash and the insert succeed, exactly one row is appended to Users, holding
  the hash and not the password, every other part of the store but the id counter is
  unchanged, and the response is 201 with a user object of exactly the keys id, name,
  email and role; when none does and \<open>bcrypt\<close> throws instead of returning the salt or
  the hash, or the database rejects the insert, the response is 500 \<open>Server error\<close> and
  the store is unchanged.
\<close>

theorem register_outcomes:
  "reqbody req ''name'' = name \<Longrightarrow> reqbody req ''email'' = email \<Longrightarrow>
   reqbody req ''password'' = password \<Longrightarrow> reqbody req ''role'' = role \<Longrightarrow>
   \<not> falsy name \<Longrightarrow> \<not> falsy email \<Longrightarrow> \<not> falsy password \<Longrightarrow> \<not> falsy role \<Longrightarrow>
   accepts E SelectUserByEmail [email] s \<Longrightarrow>
   ((\<exists>x \<in> set (users s). u_email x = Some (coerce E Users_email email)) \<longrightarrow>
      post_users_register E s req = (json 400 [(''error'', Str ''User already exists'')], s)) \<and>
   ((\<forall>x \<in> set (users s). u_email x \<noteq> Some (coerce E Users_email email)) \<and>
    bcrypt_genSalt E 10 = None \<longrightarrow>
      post_users_register E s req = (json 500 [(''error'', Str ''Server error'')], s)) \<and>
   (\<forall>salt.
      (\<forall>x \<in> set (users s). u_email x \<noteq> Some (coerce E Users_email email)) \<and>
      bcrypt_genSalt E 10 = Some salt \<and> bcrypt_hash E password salt = None \<longrightarrow>
      post_users_register E s req = (json 500 [(''error'', Str ''Server error'')], s)) \<and>
   (\<forall>salt hashed.
      (\<forall>x \<in> set (users s). u_email x \<noteq> Some (coerce E Users_email email)) \<and>
      bcrypt_genSalt E 10 = Some salt \<and> bcrypt_hash E password salt = Some hashed \<and>
      \<not> accepts E InsertUser [name, email, Str hashed, role] s \<longrightarrow>
      post_users_register E s req = (json 500 [(''error'', Str ''Server error'')], s)) \<and>
   (\<forall>salt hashed.
      (\<forall>x \<in> set (users s). u_email x \<noteq> Some (coerce E Users_email email)) \<and>
      bcrypt_genSalt E 10 = Some salt \<and> bcrypt_hash E password salt = Some hashed \<and>
      accepts E InsertUser [name, email, Str hashed, role] s \<longrightarrow>
      post_users_register E s req =
        (json 201 [(''message'', Str ''User registered successfully''),
                   (''user'', Obj [(''id'', Num (of_int (next_user_id s))),
                                   (''name'', to_js (Some (coerce E Users_name name))),
                                   (''email'', to_js (Some (coerce E Users_email email))),
                                   (''role'', to_js (Some (coerce E Users_role role)))])],
         s\<lparr>users := users s @
               [\<lparr>u_id = Some (DInt (next_user_id s)),
                 u_name = Some (coerce E Users_name name),
                 u_email = Some (coerce E Users_email email),
                 u_password = Some (coerce E Users_password (Str hashed)),
                 u_role = Some (coerce E Users_role role)\<rparr>],
            next_user_id := next_user_id s + 1\<rparr>))"
proof -
  assume f: "reqbody req ''name'' = name" "reqbody req ''email'' = email"
    "reqbody req ''password'' = password" "reqbody req ''role'' = role"
  assume t: "\<not> falsy name" "\<not> falsy email" "\<not> falsy password" "\<not> falsy role"
  assume q: "accepts E SelectUserByEmail [email] s"
  have t': "\<not> falsy (reqbody req ''name'')" "\<not> falsy (reqbody req ''email'')"
    "\<not> falsy (reqbody req ''password'')" "\<not> falsy (reqbody req ''role'')"
    using t by (simp_all add: f)
  have q': "accepts E SelectUserByEmail [reqbody req ''email''] s"
    using q by (simp add: f)
  have fresh: "select_user_by_email E s (reqbody req ''email'') = []"
    if "\<forall>x \<in> set (users s). u_email x \<noteq> Some (coerce E Users_email email)"
    using that select_user_by_email_empty_iff [OF t(2), of E s] by (simp add: f)
  have row: "new_user E s name email (Str hashed) role =
      \<lparr>u_id = Some (DInt (next_user_id s)),
       u_name = Some (coerce E Users_name name),
       u_email = Some (coerce E Users_email email),
       u_password = Some (coerce E Users_password (Str hashed)),
       u_role = Some (coerce E Users_role role)\<rparr>" for hashed
    using t by (simp add: new_user_def bind_present) (simp add: bind_def)
  have dup: "post_users_register E s req = (json 400 [(''error'', Str ''User already exists'')], s)"
    if "\<exists>x \<in> set (users s). u_email x = Some (coerce E Users_email email)"
  proof -
    from that have "select_user_by_email E s (reqbody req ''email'') \<noteq> []"
      using select_user_by_email_empty_iff [OF t(2), of E s] by (auto simp: f)
    with t' q' show ?thesis
      by (intro register_dup)
  qed
  have no_salt: "post_users_register E s req = (json 500 [(''error'', Str ''Server error'')], s)"
    if "\<forall>x \<in> set (users s). u_email x \<noteq> Some (coerce E Users_email email)"
      and "bcrypt_genSalt E 10 = None"
    using t' q' fresh [OF that(1)] that(2) by (rule register_salt_throws)
  have no_hash: "post_users_register E s req = (json 500 [(''error'', Str ''Server error'')], s)"
    if "\<forall>x \<in> set (users s). u_email x \<noteq> Some (coerce E Users_email email)"
      and "bcrypt_genSalt E 10 = Some salt" and "bcrypt_hash E password salt = None"
    for salt
    using t' q' fresh [OF that(1)] that(2) that(3) [folded f(3)] by (rule register_hash_throws)
  have no_insert: "post_users_register E s req = (json 500 [(''error'', Str ''Server error'')], s)"
    if "\<forall>x \<in> set (users s). u_email x \<noteq> Some (coerce E Users_email email)"
      and "bcrypt_genSalt E 10 = Some salt" and "bcrypt_hash E password salt = Some hashed"
      and "\<not> accepts E InsertUser [name, email, Str hashed, role] s"
    for salt hashed
  proof -
    from that(3) have h: "bcrypt_hash E (reqbody req ''password'') salt = Some hashed"
      by (simp add: f)
    from that(4) have i: "\<not> accepts E InsertUser
        [reqbody req ''name'', reqbody req ''email'', Str hashed, reqbody req ''role''] s"
      by (simp add: f)
    from t' q' fresh [OF that(1)] that(2) h i show ?thesis
      by (rule register_insert_throws)
  qed
  have new: "post_users_register E s req =
        (json 201 [(''message'', Str ''User registered successfully''),
                   (''user'', Obj [(''id'', Num (of_int (next_user_id s))),
                                   (''name'', to_js (Some (coerce E Users_name name))),
                                   (''email'', to_js (Some (coerce E Users_email email))),
                                   (''role'', to_js (Some (coerce E Users_role role)))])],
         s\<lparr>users := users s @
               [\<lparr>u_id = Some (DInt (next_user_id s)),
                 u_name = Some (coerce E Users_name name),
                 u_email = Some (coerce E Users_email email),
                 u_password = Some (coerce E Users_password (Str hashed)),
                 u_role = Some (coerce E Users_role role)\<rparr>],
            next_user_id := next_user_id s + 1\<rparr>)"
    if n: "\<forall>x \<in> set (users s). u_email x \<noteq> Some (coerce E Users_email email)"
      and h: "bcrypt_genSalt E 10 = Some salt" "bcrypt_hash E password salt = Some hashed"
        "accepts E InsertUser [name, email, Str hashed, role] s"
    for salt hashed
  proof -
    have "post_users_register E s req =
        (json 201 [(''message'', Str ''User registered successfully''),
                   (''user'', user_public (new_user E s name email (Str hashed) role))],
         s\<lparr>users := users s @ [new_user E s name email (Str hashed) role],
            next_user_id := next_user_id s + 1\<rparr>)"
      using register_new [of req E s salt hashed] f t q fresh [OF n] h by simp
    then show ?thesis
      by (simp add: row user_public_def)
  qed
  from dup no_salt no_hash no_insert new show ?thesis by blast
qed

theorem register_outcomes_witness:
  "post_users_register demo_env demo_store
      (register_body (Str ''Bob'') (Str ''ada@x.org'') (Str ''pw'') (Str ''student'')) =
     (json 400 [(''error'', Str ''User already exists'')], demo_store) \<and>
   post_users_register demo_env demo_store
      (register_body (Str ''Bob'') (Str ''bob@x.org'') (Str ''pw'') (Str ''student'')) =
     (json 201 [(''message'', Str ''User registered successfully''),
                (''user'', Obj [(''id'', Num 2), (''name'', Str ''Bob''), (''email'', Str ''bob@x.org''),
                                (''role'', Str ''student'')])],
      demo_store\<lparr>users := [ada, bob], next_user_id := 3\<rparr>) \<and>
   post_users_register demo_env demo_store
      (register_body (Str ''Bob'') (Str ''bob@x.org'') (Num 5) (Str ''student'')) =
     (json 500 [(''error'', Str ''Server error'')], demo_store)"
proof -
  have h: "bcrypt_hash demo_env (Str ''pw'') ''salt'' = Some ''saltpw''"
    "bcrypt_hash demo_env (Num 5) ''salt'' = None"
    by (simp_all add: demo_env_def)
  have dup: "post_users_register demo_env demo_store
      (register_body (Str ''Bob'') (Str ''ada@x.org'') (Str ''pw'') (Str ''student'')) =
     (json 400 [(''error'', Str ''User already exists'')], demo_store)"
    using register_outcomes [of "register_body (Str ''Bob'') (Str ''ada@x.org'') (Str ''pw'') (Str ''student'')"
                "Str ''Bob''" "Str ''ada@x.org''" "Str ''pw''" "Str ''student''" demo_env demo_store]
    by (simp add: register_body_fields demo_env_fields demo_store_fields h ada_def demo_coerce_Str)
  have new: "post_users_register demo_env demo_store
      (register_body (Str ''Bob'') (Str ''bob@x.org'') (Str ''pw'') (Str ''student'')) =
     (json 201 [(''message'', Str ''User registered successfully''),
                (''user'', Obj [(''id'', Num 2), (''name'', Str ''Bob''), (''email'', Str ''bob@x.org''),
                                (''role'', Str ''student'')])],
      demo_store\<lparr>users := [ada, bob], next_user_id := 3\<rparr>)"
    using register_outcomes [of "register_body (Str ''Bob'') (Str ''bob@x.org'') (Str ''pw'') (Str ''student'')"
                "Str ''Bob''" "Str ''bob@x.org''" "Str ''pw''" "Str ''student''" demo_env demo_store]
    by (simp add: register_body_fields demo_env_fields demo_store_fields h ada_def bob_def demo_coerce_Str)
  have thrown: "post_users_register demo_env demo_store
      (register_body (Str ''Bob'') (Str ''bob@x.org'') (Num 5) (Str ''student'')) =
     (json 500 [(''error'', Str ''Server error'')], demo_store)"
    using register_outcomes [of "register_body (Str ''Bob'') (Str ''bob@x.org'') (Num 5) (Str ''student'')"
                "Str ''Bob''" "Str ''bob@x.org''" "Num 5" "Str ''student''" demo_env demo_store]
    by (simp add: register_body_fields demo_env_fields demo_store_fields h ada_def demo_coerce_Str)
  from dup new thrown show ?thesis by simp
qed

text \<open>
  C3 as it is written fails for a password that is present and not a string. With the
  four fields present, an email no user carries and the password 5, the hasher rejects
  the password, as the bcrypt package does, and the response is 500 \<open>Server error\<close> with
  nothing inserted, neither of the two outcomes the claim allows.
\<close>

theorem register_nonstring_password_counterexample:
  "\<not> falsy (reqbody (register_body (Str ''Bob'') (Str ''bob@x.org'') (Num 5) (Str ''student'')) ''name'') \<and>
   \<not> falsy (reqbody (register_body (Str ''Bob'') (Str ''bob@x.org'') (Num 5) (Str ''student'')) ''email'') \<and>
   \<not> falsy (reqbody (register_body (Str ''Bob'') (Str ''bob@x.org'') (Num 5) (Str ''student'')) ''password'') \<and>
   \<not> falsy (reqbody (register_body (Str ''Bob'') (Str ''bob@x.org'') (Num 5) (Str ''student'')) ''role'') \<and>
   select_user_by_email demo_env demo_store (Str ''bob@x.org'') = [] \<and>
   post_users_register demo_env demo_store
      (register_body (Str ''Bob'') (Str ''bob@x.org'') (Num 5) (Str ''student'')) =
     (json 500 [(''error'', Str ''Server error'')], demo_store)"
  by (simp add: post_users_register_def register_body_fields con_query_def demo_env_def
      select_user_by_email_def demo_store_fields ada_def bind_Str demo_coerce_Str server_error_def)

section \<open>Enrollment\<close>

text \<open>
  C4. For an enroll request whose courseId and userId pass the presence test and whose
  lookup the database answers: when a row of Enrollments already holds the pair, the
  response is 400 and the store is unchanged; when none does and the insert is accepted,
  the pair is appended and the response is 201. Consequently every request to the enroll
  route and every request to the disenroll route, whatever its token, its body and the
  behaviour of the database, leads from a store with at most one enrollment for each
  pair to a store with at most one enrollment for each pair.
\<close>

theorem enroll_keeps_pairs_unique:
  "reqbody req ''courseId'' = c \<Longrightarrow> reqbody req ''userId'' = u \<Longrightarrow>
   (\<not> falsy c \<and> \<not> falsy u \<and> accepts E SelectEnrollment [c, u] s \<longrightarrow>
      (\<lparr>e_course_id = Some (coerce E Enrollments_course_id c),
        e_user_id = Some (coerce E Enrollments_user_id u)\<rparr> \<in> set (enrollments s) \<longrightarrow>
         post_enrollments E s req =
           (json 400 [(''error'', Str ''User is already enrolled in this course'')], s)) \<and>
      (\<lparr>e_course_id = Some (coerce E Enrollments_course_id c),
        e_user_id = Some (coerce E Enrollments_user_id u)\<rparr> \<notin> set (enrollments s) \<and>
       accepts E InsertEnrollment [c, u] s \<longrightarrow>
         post_enrollments E s req =
           (json 201 [(''message'', Str ''Enrollment successful''),
                      (''enrollment'', Obj [(''course_id'', to_js (Some (coerce E Enrollments_course_id c))),
                                            (''user_id'', to_js (Some (coerce E Enrollments_user_id u)))])],
            s\<lparr>enrollments := enrollments s @
                 [\<lparr>e_course_id = Some (coerce E Enrollments_course_id c),
                   e_user_id = Some (coerce E Enrollments_user_id u)\<rparr>]\<rparr>))) \<and>
   (one_enrollment_per_pair s \<longrightarrow>
      one_enrollment_per_pair (snd (handle POST_enrollments E s req)) \<and>
      one_enrollment_per_pair (snd (handle DELETE_enrollments E s req)))"
proof -
  assume c: "reqbody req ''courseId'' = c" and u: "reqbody req ''userId'' = u"
  have inv: "one_enrollment_per_pair s \<longrightarrow>
      one_enrollment_per_pair (snd (handle POST_enrollments E s req)) \<and>
      one_enrollment_per_pair (snd (handle DELETE_enrollments E s req))"
    by (simp add: protected_inv post_enrollments_inv delete_enrollments_inv)
  have dup: "\<not> falsy c \<and> \<not> falsy u \<and> accepts E SelectEnrollment [c, u] s \<longrightarrow>
      (\<lparr>e_course_id = Some (coerce E Enrollments_course_id c),
        e_user_id = Some (coerce E Enrollments_user_id u)\<rparr> \<in> set (enrollments s) \<longrightarrow>
         post_enrollments E s req =
           (json 400 [(''error'', Str ''User is already enrolled in this course'')], s))"
    using post_enrollments_exists [of req E s] select_enrollment_empty_iff [of c u E s] c u
    by auto
  have new: "\<not> falsy c \<and> \<not> falsy u \<and> accepts E SelectEnrollment [c, u] s \<longrightarrow>
      (\<lparr>e_course_id = Some (coerce E Enrollments_course_id c),
        e_user_id = Some (coerce E Enrollments_user_id u)\<rparr> \<notin> set (enrollments s) \<and>
       accepts E InsertEnrollment [c, u] s \<longrightarrow>
         post_enrollments E s req =
           (json 201 [(''message'', Str ''Enrollment successful''),
                      (''enrollment'', Obj [(''course_id'', to_js (Some (coerce E Enrollments_course_id c))),
                                            (''user_id'', to_js (Some (coerce E Enrollments_user_id u)))])],
            s\<lparr>enrollments := enrollments s @
                 [\<lparr>e_course_id = Some (coerce E Enrollments_course_id c),
                   e_user_id = Some (coerce E Enrollments_user_id u)\<rparr>]\<rparr>))"
    using post_enrollments_fresh [of req E s] select_enrollment_empty_iff [of c u E s] c u
    by (auto simp: new_enrollment_def enrollment_json_def bind_present)
  from inv dup new show ?thesis by blast
qed

theorem enroll_keeps_pairs_unique_witness:
  "one_enrollment_per_pair demo_store \<and>
   post_enrollments demo_env demo_store (enroll_request (Str ''7'') (Str ''1'')) =
     (json 400 [(''error'', Str ''User is already enrolled in this course'')], demo_store) \<and>
   post_enrollments demo_env demo_store (enroll_request (Str ''7'') (Str ''2'')) =
     (json 201 [(''message'', Str ''Enrollment successful''),
                (''enrollment'', Obj [(''course_id'', Str ''7''), (''user_id'', Str ''2'')])],
      demo_store\<lparr>enrollments :=
        [\<lparr>e_course_id = Some (DText ''7''), e_user_id = Some (DText ''1'')\<rparr>,
         \<lparr>e_course_id = Some (DText ''7''), e_user_id = Some (DText ''2'')\<rparr>]\<rparr>) \<and>
   one_enrollment_per_pair
     (snd (handle POST_enrollments demo_env demo_store (enroll_request (Str ''7'') (Str ''2'')))) \<and>
   one_enrollment_per_pair
     (snd (handle DELETE_enrollments demo_env demo_store (enroll_request (Str ''7'') (Str ''1''))))"
proof -
  have inv: "one_enrollment_per_pair demo_store"
    by (simp add: one_enrollment_per_pair_def demo_store_fields)
  have dup: "post_enrollments demo_env demo_store (enroll_request (Str ''7'') (Str ''1'')) =
     (json 400 [(''error'', Str ''User is already enrolled in this course'')], demo_store)"
    using enroll_keeps_pairs_unique [of "enroll_request (Str ''7'') (Str ''1'')" "Str ''7''" "Str ''1''"
        demo_env demo_store]
    by (simp add: enroll_request_fields demo_env_fields demo_store_fields demo_coerce_Str)
  have new: "post_enrollments demo_env demo_store (enroll_request (Str ''7'') (Str ''2'')) =
     (json 201 [(''message'', Str ''Enrollment successful''),
                (''enrollment'', Obj [(''course_id'', Str ''7''), (''user_id'', Str ''2'')])],
      demo_store\<lparr>enrollments :=
        [\<lparr>e_course_id = Some (DText ''7''), e_user_id = Some (DText ''1'')\<rparr>,
         \<lparr>e_course_id = Some (DText ''7''), e_user_id = Some (DText ''2'')\<rparr>]\<rparr>)"
    using enroll_keeps_pairs_unique [of "enroll_request (Str ''7'') (Str ''2'')" "Str ''7''" "Str ''2''"
        demo_env demo_store]
    by (simp add: enroll_request_fields demo_env_fields demo_store_fields demo_coerce_Str)
  have kept: "one_enrollment_per_pair
      (snd (handle POST_enrollments demo_env demo_store (enroll_request (Str ''7'') (Str ''2''))))"
     "one_enrollment_per_pair
      (snd (handle DELETE_enrollments demo_env demo_store (enroll_request (Str ''7'') (Str ''1''))))"
    using enroll_keeps_pairs_unique [of "enroll_request (Str ''7'') (Str ''2'')" "Str ''7''" "Str ''2''"
        demo_env demo_store]
      enroll_keeps_pairs_unique [of "enroll_request (Str ''7'') (Str ''1'')" "Str ''7''" "Str ''1''"
        demo_env demo_store] inv
    by (simp_all add: enroll_request_fields)
  from inv dup new kept show ?thesis by simp
qed

section \<open>Course update\<close>

text \<open>
  C5, as amended. An update whose title and description are both falsy is refused with
  400 and the store is unchanged. For an update of a course whose id is stored, with a
  title or a description that passes the handler's truthiness test and with both queries
  answered: the response is 200 with the updated row; in every row with that id a field
  that is absent or null keeps its stored value and a field that is present and not null,
  the empty string included, replaces it; the id and the instructor of every row, every
  row with another id, and every other table are unchanged. In particular an update
  without a title leaves every title as it was.
\<close>

theorem course_update_frame:
  "ident = Str (params req ''id'') \<Longrightarrow> title = reqbody req ''title'' \<Longrightarrow>
   description = reqbody req ''description'' \<Longrightarrow>
   (falsy title \<and> falsy description \<longrightarrow>
      put_courses_id E s req =
        (json 400 [(''error'', Str ''At least one field (title or description) must be provided'')], s)) \<and>
   (\<not> (falsy title \<and> falsy description) \<and>
    accepts E SelectCourseById [ident] s \<and>
    accepts E UpdateCourse [title, description, ident] s \<and>
    (\<exists>c \<in> set (courses s). c_id c = Some (coerce E Courses_id ident)) \<and>
    put_courses_id E s req = (r, s') \<longrightarrow>
      r = json 200 [(''message'', Str ''Course updated successfully''),
                    (''course'', rows0 (map course_json
                       (filter (\<lambda>c. c_id c = Some (coerce E Courses_id ident)) (courses s'))))] \<and>
      users s' = users s \<and> enrollments s' = enrollments s \<and> reviews s' = reviews s \<and>
      next_user_id s' = next_user_id s \<and> next_course_id s' = next_course_id s \<and>
      length (courses s') = length (courses s) \<and>
      (\<forall>i < length (courses s).
         c_id (courses s' ! i) = c_id (courses s ! i) \<and>
         c_instructor_id (courses s' ! i) = c_instructor_id (courses s ! i) \<and>
         (if c_id (courses s ! i) = Some (coerce E Courses_id ident)
          then c_title (courses s' ! i) =
                 (if title = Undefined \<or> title = Null then c_title (courses s ! i)
                  else Some (coerce E Courses_title title)) \<and>
               c_description (courses s' ! i) =
                 (if description = Undefined \<or> description = Null then c_description (courses s ! i)
                  else Some (coerce E Courses_description description))
          else courses s' ! i = courses s ! i)) \<and>
      (title = Undefined \<longrightarrow> map c_title (courses s') = map c_title (courses s)))"
proof -
  assume f: "ident = Str (params req ''id'')" "title = reqbody req ''title''"
    "description = reqbody req ''description''"
  have rejected: "put_courses_id E s req =
        (json 400 [(''error'', Str ''At least one field (title or description) must be provided'')], s)"
    if "falsy title \<and> falsy description"
    using that unfolding f by (intro put_courses_id_rejects) simp_all
  from rejected put_courses_id_frame [OF f, of E s r s'] show ?thesis
    by blast
qed

theorem course_update_frame_witness:
  "(\<exists>c \<in> set (courses demo_store). c_id c = Some (coerce demo_env Courses_id (Str ''7''))) \<and>
   status (fst (put_courses_id demo_env demo_store (course_update_request ''7'' Undefined (Str ''New'')))) = 200 \<and>
   map c_title (courses (snd (put_courses_id demo_env demo_store
      (course_update_request ''7'' Undefined (Str ''New''))))) = [Some (DText ''Logic'')] \<and>
   c_description (courses (snd (put_courses_id demo_env demo_store
      (course_update_request ''7'' Undefined (Str ''New'')))) ! 0) = Some (DText ''New'') \<and>
   put_courses_id demo_env demo_store (course_update_request ''7'' (Str []) (Num 0)) =
     (json 400 [(''error'', Str ''At least one field (title or description) must be provided'')],
      demo_store)"
proof -
  let ?req = "course_update_request ''7'' Undefined (Str ''New'')"
  let ?out = "put_courses_id demo_env demo_store ?req"
  have ex: "\<exists>c \<in> set (courses demo_store). c_id c = Some (coerce demo_env Courses_id (Str ''7''))"
    by (simp add: demo_store_fields demo_env_fields demo_coerce_Str logic_course_def)
  have "status (fst ?out) = 200"
    and "map c_title (courses (snd ?out)) = [Some (DText ''Logic'')]"
    and "c_description (courses (snd ?out) ! 0) = Some (DText ''New'')"
    using course_update_frame [of "Str ''7''" ?req Undefined "Str ''New''" demo_env demo_store
        "fst ?out" "snd ?out"]
    by (simp_all add: course_update_request_fields status_json demo_store_fields demo_env_fields
        demo_coerce_Str logic_course_def)
  moreover have "put_courses_id demo_env demo_store (course_update_request ''7'' (Str []) (Num 0)) =
     (json 400 [(''error'', Str ''At least one field (title or description) must be provided'')],
      demo_store)"
    using course_update_frame [of "Str ''7''" "course_update_request ''7'' (Str []) (Num 0)"
        "Str []" "Num 0" demo_env demo_store]
    by (simp add: course_update_request_fields)
  ultimately show ?thesis
    using ex by simp
qed

text \<open>
  C5 as it is written fails under either reading of a supplied field. An update
  that supplies only the title, as the empty string, is refused with 400 and the stored
  title stays: a field present in the body is not replaced. An update that supplies a
  description and the empty string as title is accepted and the stored title becomes the
  empty string: a field that fails the handler's presence test is replaced all the same.
\<close>

theorem course_update_supplied_counterexample:
  "reqbody (course_update_request ''7'' (Str []) Undefined) ''title'' = Str [] \<and>
   put_courses_id demo_env demo_store (course_update_request ''7'' (Str []) Undefined) =
     (json 400 [(''error'', Str ''At least one field (title or description) must be provided'')],
      demo_store) \<and>
   map c_id (courses demo_store) = [Some (coerce demo_env Courses_id (Str ''7''))] \<and>
   map c_title (courses demo_store) = [Some (DText ''Logic'')] \<and>
   falsy (reqbody (course_update_request ''7'' (Str []) (Str ''New'')) ''title'') \<and>
   put_courses_id demo_env demo_store (course_update_request ''7'' (Str []) (Str ''New'')) =
     (json 200 [(''message'', Str ''Course updated successfully''),
                (''course'', Obj [(''id'', Str ''7''), (''title'', Str []), (''description'', Str ''New''),
                                  (''instructor_id'', Num 1)])],
      demo_store\<lparr>courses := [logic_course\<lparr>c_title := Some (DText []),
                                             c_description := Some (DText ''New'')\<rparr>]\<rparr>)"
  by (simp add: put_courses_id_def course_update_request_fields con_query_def demo_env_fields
      select_course_by_id_def update_course_def set_course_def course_json_def bind_def
      demo_store_fields demo_coerce_Str logic_course_def)

section \<open>Disenrollment\<close>

text \<open>
  C6. For a disenroll request whose courseId and userId pass the presence test and whose
  lookup the database answers: when no row of Enrollments holds the pair, the response is
  404 and the store is unchanged; when one does and the delete is accepted, the response
  is the success message and the pair is removed, and every later listing of that user's
  enrolled courses, when the database answers it, is a 404 or a 200 whose list holds no
  course with the disenrolled id.
\<close>

theorem disenroll_outcomes:
  "c = reqbody req ''courseId'' \<Longrightarrow> u = reqbody req ''userId'' \<Longrightarrow>
   \<not> falsy c \<Longrightarrow> \<not> falsy u \<Longrightarrow> accepts E SelectEnrollment [c, u] s \<Longrightarrow>
   row = \<lparr>e_course_id = Some (coerce E Enrollments_course_id c),
          e_user_id = Some (coerce E Enrollments_user_id u)\<rparr> \<Longrightarrow>
   s' = s\<lparr>enrollments := removeAll row (enrollments s)\<rparr> \<Longrightarrow>
   (row \<notin> set (enrollments s) \<longrightarrow>
      delete_enrollments E s req = (json 404 [(''error'', Str ''Enrollment not found'')], s)) \<and>
   (row \<in> set (enrollments s) \<and> accepts E DeleteEnrollment [c, u] s \<longrightarrow>
      delete_enrollments E s req = (json 200 [(''message'', Str ''Disenrollment successful'')], s') \<and>
      (\<forall>req'. coerce E Enrollments_user_id (Str (params req' ''userId'')) = coerce E Enrollments_user_id u \<and>
               accepts E SelectEnrolledCourses [Str (params req' ''userId'')] s' \<longrightarrow>
         (\<exists>listed.
            fst (get_enrollments_userId E s' req') =
              (if listed = [] then json 404 [(''message'', Str ''No enrolled courses found'')]
               else json 200 [(''enrolledCourses'', Arr (map course_json listed))]) \<and>
            (\<forall>k \<in> set listed. c_id k \<noteq> Some (coerce E Enrollments_course_id c)))))"
proof -
  assume f: "c = reqbody req ''courseId''" "u = reqbody req ''userId''"
  assume t: "\<not> falsy c" "\<not> falsy u"
  assume q: "accepts E SelectEnrollment [c, u] s"
  assume row: "row = \<lparr>e_course_id = Some (coerce E Enrollments_course_id c),
          e_user_id = Some (coerce E Enrollments_user_id u)\<rparr>"
  assume s': "s' = s\<lparr>enrollments := removeAll row (enrollments s)\<rparr>"
  have sel: "(select_enrollment E s c u = []) = (row \<notin> set (enrollments s))"
    unfolding row using t by (rule select_enrollment_empty_iff)
  have del: "delete_enrollment E s c u = s'"
    unfolding s' row using t by (rule delete_enrollment_removeAll)
  have missing: "delete_enrollments E s req = (json 404 [(''error'', Str ''Enrollment not found'')], s)"
    if "row \<notin> set (enrollments s)"
    using that sel t q unfolding f by (intro delete_enrollments_missing) simp_all
  have found: "delete_enrollments E s req = (json 200 [(''message'', Str ''Disenrollment successful'')], s')"
    if "row \<in> set (enrollments s)" "accepts E DeleteEnrollment [c, u] s"
  proof -
    have "delete_enrollments E s req =
      (json 200 [(''message'', Str ''Disenrollment successful'')], delete_enrollment E s c u)"
      using that sel t q unfolding f by (intro delete_enrollments_found) simp_all
    then show ?thesis by (simp add: del)
  qed
  have listing: "\<exists>listed.
            fst (get_enrollments_userId E s' req') =
              (if listed = [] then json 404 [(''message'', Str ''No enrolled courses found'')]
               else json 200 [(''enrolledCourses'', Arr (map course_json listed))]) \<and>
            (\<forall>k \<in> set listed. c_id k \<noteq> Some (coerce E Enrollments_course_id c))"
    if same: "coerce E Enrollments_user_id (Str (params req' ''userId'')) = coerce E Enrollments_user_id u"
      and ok: "accepts E SelectEnrolledCourses [Str (params req' ''userId'')] s'"
    for req'
  proof (intro exI conjI)
    show "fst (get_enrollments_userId E s' req') =
        (if select_enrolled_courses E s' (Str (params req' ''userId'')) = []
         then json 404 [(''message'', Str ''No enrolled courses found'')]
         else json 200 [(''enrolledCourses'',
                Arr (map course_json (select_enrolled_courses E s' (Str (params req' ''userId'')))))])"
      using ok by (rule get_enrollments_userId_answer)
    show "\<forall>k \<in> set (select_enrolled_courses E s' (Str (params req' ''userId''))).
        c_id k \<noteq> Some (coerce E Enrollments_course_id c)"
    proof
      fix k
      assume "k \<in> set (select_enrolled_courses E s' (Str (params req' ''userId'')))"
      then show "c_id k \<noteq> Some (coerce E Enrollments_course_id c)"
        unfolding s' row by (rule disenrolled_not_listed [OF same])
    qed
  qed
  from missing found listing show ?thesis by blast
qed

theorem disenroll_outcomes_witness:
  "delete_enrollments demo_env demo_store (enroll_request (Str ''7'') (Str ''9'')) =
     (json 404 [(''error'', Str ''Enrollment not found'')], demo_store) \<and>
   delete_enrollments demo_env demo_store (enroll_request (Str ''7'') (Str ''1'')) =
     (json 200 [(''message'', Str ''Disenrollment successful'')], demo_store\<lparr>enrollments := []\<rparr>) \<and>
   (\<exists>listed.
      fst (get_enrollments_userId demo_env (demo_store\<lparr>enrollments := []\<rparr>) (path_request ''userId'' ''1'')) =
        (if listed = [] then json 404 [(''message'', Str ''No enrolled courses found'')]
         else json 200 [(''enrolledCourses'', Arr (map course_json listed))]) \<and>
      (\<forall>k \<in> set listed. c_id k \<noteq> Some (DText ''7'')))"
proof -
  have missing: "delete_enrollments demo_env demo_store (enroll_request (Str ''7'') (Str ''9'')) =
     (json 404 [(''error'', Str ''Enrollment not found'')], demo_store)"
    using disenroll_outcomes [of "Str ''7''" "enroll_request (Str ''7'') (Str ''9'')" "Str ''9''"
        demo_env demo_store]
    by (simp add: enroll_request_fields demo_env_fields demo_store_fields demo_coerce_Str)
  have found: "delete_enrollments demo_env demo_store (enroll_request (Str ''7'') (Str ''1'')) =
       (json 200 [(''message'', Str ''Disenrollment successful'')], demo_store\<lparr>enrollments := []\<rparr>) \<and>
     (\<exists>listed.
      fst (get_enrollments_userId demo_env (demo_store\<lparr>enrollments := []\<rparr>) (path_request ''userId'' ''1'')) =
        (if listed = [] then json 404 [(''message'', Str ''No enrolled courses found'')]
         else json 200 [(''enrolledCourses'', Arr (map course_json listed))]) \<and>
      (\<forall>k \<in> set listed. c_id k \<noteq> Some (DText ''7'')))"
    using disenroll_outcomes [of "Str ''7''" "enroll_request (Str ''7'') (Str ''1'')" "Str ''1''"
        demo_env demo_store]
    by (simp add: enroll_request_fields path_request_fields demo_env_fields demo_store_fields
        demo_coerce_Str)
  from missing found show ?thesis by simp
qed

section \<open>Review submission\<close>

text \<open>
  C7. From every store, two review submissions for the same course and the same user,
  each with a rating and a userId that pass the presence test and each accepted by the
  database, both answer 201 with the row they created, and the table of reviews ends with
  two more rows, both with that course and that user: no lookup precedes the insert.
\<close>

theorem two_reviews_for_one_pair:
  "params req1 ''courseId'' = cid \<Longrightarrow> params req2 ''courseId'' = cid \<Longrightarrow> cid \<noteq> [] \<Longrightarrow>
   reqbody req1 ''userId'' = uid \<Longrightarrow> reqbody req2 ''userId'' = uid \<Longrightarrow> \<not> falsy uid \<Longrightarrow>
   \<not> falsy (reqbody req1 ''rating'') \<Longrightarrow> \<not> falsy (reqbody req2 ''rating'') \<Longrightarrow>
   post_courses_courseId_reviews E s req1 = (res1, s1) \<Longrightarrow>
   post_courses_courseId_reviews E s1 req2 = (res2, s2) \<Longrightarrow>
   accepts E InsertReview [Str cid, uid, reqbody req1 ''rating'', reqbody req1 ''comment''] s \<Longrightarrow>
   accepts E InsertReview [Str cid, uid, reqbody req2 ''rating'', reqbody req2 ''comment''] s1 \<Longrightarrow>
   status res1 = 201 \<and> status res2 = 201 \<and>
   (\<exists>row1 row2.
      reviews s2 = reviews s @ [row1, row2] \<and>
      r_course_id row1 = Some (coerce E Reviews_course_id (Str cid)) \<and>
      r_user_id row1 = Some (coerce E Reviews_user_id uid) \<and>
      r_course_id row2 = Some (coerce E Reviews_course_id (Str cid)) \<and>
      r_user_id row2 = Some (coerce E Reviews_user_id uid) \<and>
      body res1 = Obj [(''message'', Str ''Feedback submitted successfully''), (''review'', review_json row1)] \<and>
      body res2 = Obj [(''message'', Str ''Feedback submitted successfully''), (''review'', review_json row2)]) \<and>
   length (reviews s2) = length (reviews s) + 2"
proof -
  assume c: "params req1 ''courseId'' = cid" "params req2 ''courseId'' = cid" "cid \<noteq> []"
  assume u: "reqbody req1 ''userId'' = uid" "reqbody req2 ''userId'' = uid" "\<not> falsy uid"
  assume r: "\<not> falsy (reqbody req1 ''rating'')" "\<not> falsy (reqbody req2 ''rating'')"
  assume run: "post_courses_courseId_reviews E s req1 = (res1, s1)"
    "post_courses_courseId_reviews E s1 req2 = (res2, s2)"
  assume q: "accepts E InsertReview [Str cid, uid, reqbody req1 ''rating'', reqbody req1 ''comment''] s"
    "accepts E InsertReview [Str cid, uid, reqbody req2 ''rating'', reqbody req2 ''comment''] s1"
  let ?row1 = "new_review E (Str cid) uid (reqbody req1 ''rating'') (reqbody req1 ''comment'')"
  let ?row2 = "new_review E (Str cid) uid (reqbody req2 ''rating'') (reqbody req2 ''comment'')"
  have first: "res1 = json 201 [(''message'', Str ''Feedback submitted successfully''),
                (''review'', review_json ?row1)]" "s1 = s\<lparr>reviews := reviews s @ [?row1]\<rparr>"
    using post_review_inserts [of req1 E s] c u r q run by simp_all
  have second: "res2 = json 201 [(''message'', Str ''Feedback submitted successfully''),
                (''review'', review_json ?row2)]" "s2 = s1\<lparr>reviews := reviews s1 @ [?row2]\<rparr>"
    using post_review_inserts [of req2 E s1] c u r q run by simp_all
  have rows: "reviews s2 = reviews s @ [?row1, ?row2]"
    by (simp add: first second)
  have pairs: "r_course_id ?row1 = Some (coerce E Reviews_course_id (Str cid))"
    "r_user_id ?row1 = Some (coerce E Reviews_user_id uid)"
    "r_course_id ?row2 = Some (coerce E Reviews_course_id (Str cid))"
    "r_user_id ?row2 = Some (coerce E Reviews_user_id uid)"
    using new_review_pair [OF u(3)] by simp_all
  have bodies: "body res1 = Obj [(''message'', Str ''Feedback submitted successfully''), (''review'', review_json ?row1)]"
    "body res2 = Obj [(''message'', Str ''Feedback submitted successfully''), (''review'', review_json ?row2)]"
    by (simp_all add: first second json_def)
  have st: "status res1 = 201" "status res2 = 201"
    by (simp_all add: first second status_json)
  from rows pairs bodies have "\<exists>row1 row2.
      reviews s2 = reviews s @ [row1, row2] \<and>
      r_course_id row1 = Some (coerce E Reviews_course_id (Str cid)) \<and>
      r_user_id row1 = Some (coerce E Reviews_user_id uid) \<and>
      r_course_id row2 = Some (coerce E Reviews_course_id (Str cid)) \<and>
      r_user_id row2 = Some (coerce E Reviews_user_id uid) \<and>
      body res1 = Obj [(''message'', Str ''Feedback submitted successfully''), (''review'', review_json row1)] \<and>
      body res2 = Obj [(''message'', Str ''Feedback submitted successfully''), (''review'', review_json row2)]"
    by blast
  moreover have "length (reviews s2) = length (reviews s) + 2"
    by (simp add: rows)
  ultimately show ?thesis
    using st by blast
qed

theorem two_reviews_for_one_pair_witness:
  "status (fst (post_courses_courseId_reviews demo_env demo_store
      (review_request ''7'' (Str ''1'') (Num 5) (Str ''good'')))) = 201 \<and>
   status (fst (post_courses_courseId_reviews demo_env
      (snd (post_courses_courseId_reviews demo_env demo_store
              (review_request ''7'' (Str ''1'') (Num 5) (Str ''good''))))
      (review_request ''7'' (Str ''1'') (Num 4) Undefined))) = 201 \<and>
   length (reviews (snd (post_courses_courseId_reviews demo_env
      (snd (post_courses_courseId_reviews demo_env demo_store
              (review_request ''7'' (Str ''1'') (Num 5) (Str ''good''))))
      (review_request ''7'' (Str ''1'') (Num 4) Undefined)))) = 2"
proof -
  let ?req1 = "review_request ''7'' (Str ''1'') (Num 5) (Str ''good'')"
  let ?req2 = "review_request ''7'' (Str ''1'') (Num 4) Undefined"
  let ?out1 = "post_courses_courseId_reviews demo_env demo_store ?req1"
  let ?out2 = "post_courses_courseId_reviews demo_env (snd ?out1) ?req2"
  have "status (fst ?out1) = 201 \<and> status (fst ?out2) = 201 \<and>
   (\<exists>row1 row2.
      reviews (snd ?out2) = reviews demo_store @ [row1, row2] \<and>
      r_course_id row1 = Some (coerce demo_env Reviews_course_id (Str ''7'')) \<and>
      r_user_id row1 = Some (coerce demo_env Reviews_user_id (Str ''1'')) \<and>
      r_course_id row2 = Some (coerce demo_env Reviews_course_id (Str ''7'')) \<and>
      r_user_id row2 = Some (coerce demo_env Reviews_user_id (Str ''1'')) \<and>
      body (fst ?out1) = Obj [(''message'', Str ''Feedback submitted successfully''), (''review'', review_json row1)] \<and>
      body (fst ?out2) = Obj [(''message'', Str ''Feedback submitted successfully''), (''review'', review_json row2)]) \<and>
   length (reviews (snd ?out2)) = length (reviews demo_store) + 2"
    by (rule two_reviews_for_one_pair [where ?req1.0 = ?req1 and ?req2.0 = ?req2])
      (simp_all add: review_request_fields demo_env_fields)
  then show ?thesis
    by (simp add: demo_store_fields)
qed

section \<open>Empty results\<close>

text \<open>
  C8. When the database answers and no row matches, the list of an instructor's courses
  is a 200 with an empty array, while the list of a user's enrolled courses and the list
  of a course's reviews are both a 404; none of them changes the store.
\<close>

theorem empty_list_policies:
  "(accepts E SelectCoursesByInstructor [Str (params req ''instructorId'')] s \<and>
    select_courses_by_instructor E s (Str (params req ''instructorId'')) = [] \<longrightarrow>
      get_courses_instructorId E s req = (json 200 [(''courses'', Arr [])], s)) \<and>
   (accepts E SelectEnrolledCourses [Str (params req ''userId'')] s \<and>
    select_enrolled_courses E s (Str (params req ''userId'')) = [] \<longrightarrow>
      get_enrollments_userId E s req = (json 404 [(''message'', Str ''No enrolled courses found'')], s)) \<and>
   (accepts E SelectCourseReviews [Str (params req ''courseId'')] s \<and>
    select_course_reviews E s (Str (params req ''courseId'')) = [] \<longrightarrow>
      get_courses_courseId_reviews E s req =
        (json 404 [(''message'', Str ''No reviews found for this course'')], s))"
  by (simp add: get_courses_instructorId_def get_enrollments_userId_def
      get_courses_courseId_reviews_def con_query_def)

theorem empty_list_policies_witness:
  "get_courses_instructorId demo_env demo_store (path_request ''instructorId'' ''9'') =
     (json 200 [(''courses'', Arr [])], demo_store) \<and>
   get_enrollments_userId demo_env demo_store (path_request ''userId'' ''9'') =
     (json 404 [(''message'', Str ''No enrolled courses found'')], demo_store) \<and>
   get_courses_courseId_reviews demo_env demo_store (path_request ''courseId'' ''7'') =
     (json 404 [(''message'', Str ''No reviews found for this course'')], demo_store)"
proof -
  have a: "select_courses_by_instructor demo_env demo_store (Str ''9'') = []"
    by (simp add: select_courses_by_instructor_def bind_Str demo_env_fields demo_store_fields
        demo_coerce_Str logic_course_def)
  have b: "select_enrolled_courses demo_env demo_store (Str ''9'') = []"
    by (simp add: select_enrolled_courses_def bind_Str demo_env_fields demo_store_fields
        demo_coerce_Str logic_course_def)
  have c: "select_course_reviews demo_env demo_store (Str ''7'') = []"
    by (simp add: select_course_reviews_def demo_store_fields)
  show ?thesis
    using empty_list_policies [of demo_env "path_request ''instructorId'' ''9''" demo_store]
      empty_list_policies [of demo_env "path_request ''userId'' ''9''" demo_store]
      empty_list_policies [of demo_env "path_request ''courseId'' ''7''" demo_store] a b c
    by (simp add: path_request_fields demo_env_fields)
qed

section \<open>Errors leave the store as it was\<close>

text \<open>
  C9. On every route, for every environment, store and request: when the response status
  is 400 or 404, the store after the request is the store before it. Each handler issues
  its only write after all its checks, so a store that differs from the one before comes
  with status 200 or 201.
\<close>

theorem errors_leave_store_unchanged:
  "status (fst (handle rt E s req)) = 400 \<or> status (fst (handle rt E s req)) = 404 \<Longrightarrow>
   snd (handle rt E s req) = s"
  using handle_writes [of rt E s req] by auto

theorem errors_leave_store_unchanged_witness:
  "status (fst (handle POST_users_register demo_env demo_store bare_request)) = 400 \<and>
   snd (handle POST_users_register demo_env demo_store bare_request) = demo_store \<and>
   status (fst (handle GET_courses_courseId_reviews demo_env demo_store (path_request ''courseId'' ''7''))) = 404 \<and>
   snd (handle GET_courses_courseId_reviews demo_env demo_store (path_request ''courseId'' ''7'')) = demo_store"
proof -
  have a: "status (fst (handle POST_users_register demo_env demo_store bare_request)) = 400"
    by (simp add: post_users_register_def bare_request_def no_fields_def status_json)
  have b: "status (fst (handle GET_courses_courseId_reviews demo_env demo_store
      (path_request ''courseId'' ''7''))) = 404"
    by (simp add: get_courses_courseId_reviews_def con_query_def demo_env_fields
        select_course_reviews_def demo_store_fields status_json)
  from a b errors_leave_store_unchanged [of POST_users_register demo_env demo_store bare_request]
    errors_leave_store_unchanged [of GET_courses_courseId_reviews demo_env demo_store
      "path_request ''courseId'' ''7''"]
  show ?thesis by simp
qed

section \<open>Falsy ratings\<close>

text \<open>
  C10. A review submission whose rating is the number 0 is refused with 400, with the
  response of the same request without a rating; a review update whose only field is the
  rating 0 is refused with 400, with the response of the same request without a rating.
  Neither changes the store.
\<close>

theorem falsy_zero_rating_rejected:
  "(reqbody req ''rating'' = Num 0 \<longrightarrow>
      post_courses_courseId_reviews E s req =
        (json 400 [(''error'', Str ''Course ID, Rating, and User ID are required'')], s) \<and>
      post_courses_courseId_reviews E s req =
        post_courses_courseId_reviews E s (req\<lparr>reqbody := (reqbody req)(''rating'' := Undefined)\<rparr>)) \<and>
   (reqbody req ''rating'' = Num 0 \<and> reqbody req ''comment'' = Undefined \<longrightarrow>
      put_courses_courseId_reviews_userId E s req =
        (json 400 [(''error'', Str ''At least one field (rating or comment) must be provided'')], s) \<and>
      put_courses_courseId_reviews_userId E s req =
        put_courses_courseId_reviews_userId E s (req\<lparr>reqbody := (reqbody req)(''rating'' := Undefined)\<rparr>))"
  by (simp add: post_courses_courseId_reviews_def put_courses_courseId_reviews_userId_def)

theorem falsy_zero_rating_rejected_witness:
  "reqbody (review_request ''7'' (Str ''1'') (Num 0) Undefined) ''rating'' = Num 0 \<and>
   post_courses_courseId_reviews demo_env demo_store (review_request ''7'' (Str ''1'') (Num 0) Undefined) =
     (json 400 [(''error'', Str ''Course ID, Rating, and User ID are required'')], demo_store) \<and>
   put_courses_courseId_reviews_userId demo_env demo_store (review_update_request ''7'' ''1'' (Num 0) Undefined) =
     (json 400 [(''error'', Str ''At least one field (rating or comment) must be provided'')], demo_store)"
  using falsy_zero_rating_rejected [of "review_request ''7'' (Str ''1'') (Num 0) Undefined" demo_env demo_store]
    falsy_zero_rating_rejected [of "review_update_request ''7'' ''1'' (Num 0) Undefined" demo_env demo_store]
  by (simp add: review_request_fields review_update_request_fields)

end
